theory Spec2Isabelle
  imports Main "HOL-Library.Word" "HOL-Library.Char_ord" "HOL-Library.List_Lexorder"
begin

unbundle bit_operations_syntax

section \<open>Byte strings of the C++ standard library\<close>

text \<open>
  A \<open>std::string\<close> is a sequence of bytes: \<^typ>\<open>string\<close>.  The value
  \<open>std::string::npos\<close> of \<open>find\<close> is \<^term>\<open>None\<close>; the exception
  \<open>std::out_of_range\<close> of \<open>substr\<close> is a value of the type of faults.
\<close>

datatype fault = OutOfRange

text \<open>\<open>hay.find(needle, 0)\<close> on the rest of a string whose first byte has index \<open>i\<close>.\<close>

fun find_scan :: "string \<Rightarrow> string \<Rightarrow> nat \<Rightarrow> nat option" where
  "find_scan needle [] i = (if needle = [] then Some i else None)"
| "find_scan needle (c # cs) i =
     (if take (length needle) (c # cs) = needle then Some i
      else find_scan needle cs (Suc i))"

text \<open>\<open>hay.find(needle, pos)\<close>: the least index at or after \<open>pos\<close> where \<open>needle\<close> starts.\<close>

definition str_find :: "string \<Rightarrow> string \<Rightarrow> nat \<Rightarrow> nat option" where
  "str_find hay needle pos =
     (if length hay < pos then None else find_scan needle (drop pos hay) pos)"

text \<open>\<open>s.substr(pos, n)\<close> throws when \<open>pos\<close> is beyond the end and clips \<open>n\<close> otherwise.\<close>

definition substr :: "string \<Rightarrow> nat \<Rightarrow> nat \<Rightarrow> fault + string" where
  "substr s pos n = (if length s < pos then Inl OutOfRange else Inr (take n (drop pos s)))"

text \<open>\<open>s.substr(pos)\<close>: everything from \<open>pos\<close> on.\<close>

definition substr_from :: "string \<Rightarrow> nat \<Rightarrow> fault + string" where
  "substr_from s pos = (if length s < pos then Inl OutOfRange else Inr (drop pos s))"

text \<open>\<open>hay.find(needle) != npos\<close>.\<close>

definition contains :: "string \<Rightarrow> string \<Rightarrow> bool" where
  "contains hay needle = (str_find hay needle 0 \<noteq> None)"

section \<open>Message codec (websocket_server.h, websocket_server.cpp)\<close>

datatype MessageType =
  OFFER | ANSWER | ICE_CANDIDATE | JOIN | LEAVE | ERROR | VIEWER_JOINED | VIEWER_LEFT

record WebSocketMessage =
  msg_type :: MessageType
  msg_data :: string
  msg_room_id :: string
  msg_peer_id :: string

text \<open>The room identifier of a JOIN message: the text between \<open>"room_id":"\<close> and the next quote.\<close>

definition extract_room_id :: "string \<Rightarrow> fault + string" where
  "extract_room_id json =
     (case str_find json ''\"room_id\":\"'' 0 of
        None \<Rightarrow> Inr []
      | Some room_pos \<Rightarrow>
          (let start = room_pos + 11 in
           case str_find json ''\"'' start of
             None \<Rightarrow> Inr []
           | Some end \<Rightarrow> substr json start (end - start)))"

definition parse_message :: "string \<Rightarrow> fault + WebSocketMessage" where
  "parse_message json =
     (if contains json ''\"type\":\"join\"'' \<or> contains json ''\"type\":\"JOIN\"'' then
        (case extract_room_id json of
           Inl e \<Rightarrow> Inl e
         | Inr rid \<Rightarrow>
             Inr \<lparr>msg_type = JOIN, msg_data = json, msg_room_id = rid, msg_peer_id = []\<rparr>)
      else if contains json ''\"type\":\"offer\"'' then
        Inr \<lparr>msg_type = OFFER, msg_data = json, msg_room_id = [], msg_peer_id = []\<rparr>
      else if contains json ''\"type\":\"answer\"'' then
        Inr \<lparr>msg_type = ANSWER, msg_data = json, msg_room_id = [], msg_peer_id = []\<rparr>
      else if contains json ''\"type\":\"ice_candidate\"''
              \<or> contains json ''\"type\":\"candidate\"'' then
        Inr \<lparr>msg_type = ICE_CANDIDATE, msg_data = json, msg_room_id = [], msg_peer_id = []\<rparr>
      else if contains json ''\"type\":\"leave\"'' then
        Inr \<lparr>msg_type = LEAVE, msg_data = json, msg_room_id = [], msg_peer_id = []\<rparr>
      else
        Inr \<lparr>msg_type = ERROR, msg_data = json, msg_room_id = [], msg_peer_id = []\<rparr>)"

definition type_name :: "MessageType \<Rightarrow> string" where
  "type_name t =
     (case t of
        OFFER \<Rightarrow> ''offer'' | ANSWER \<Rightarrow> ''answer'' | ICE_CANDIDATE \<Rightarrow> ''ice_candidate''
      | JOIN \<Rightarrow> ''join'' | LEAVE \<Rightarrow> ''leave'' | VIEWER_JOINED \<Rightarrow> ''viewer_joined''
      | VIEWER_LEFT \<Rightarrow> ''viewer_left'' | ERROR \<Rightarrow> ''error'')"

definition build_message :: "MessageType \<Rightarrow> string \<Rightarrow> string" where
  "build_message t payload = ''{\"type\":\"'' @ type_name t @ ''\",\"data\":'' @ payload @ ''}''"

section \<open>Sessions (websocket_server.cpp)\<close>

text \<open>
  Modelled from the spec: the enumeration \<open>ParticipantRole\<close> of \<open>streaming_server.h\<close>,
  which is not among the sources.  The role of a session is HOST or VIEWER, and the code
  names both constants.
\<close>

datatype ParticipantRole = HOST | VIEWER

text \<open>
  What a session does outside its own fields, in program order: the calls to the streaming
  server and the operations on its own WebSocket stream.  \<open>WsWrite\<close> records the call
  \<open>ws_.write(message)\<close> made by \<open>send\<close> (an exception of the stream is caught and
  logged there), \<open>WsClose\<close> the call \<open>ws_.close(normal)\<close> made by \<open>close\<close>.
\<close>

datatype effect =
    AddPeer string string string ParticipantRole
  | RemovePeer string
  | WsWrite string
  | WsClose

record WebSocketSession =
  room_id :: string
  peer_id :: string
  is_host :: bool
  ws_open :: bool
  reading :: bool
  effects :: "effect list"

text \<open>
  \<open>ws_open\<close> is \<open>ws_.is_open()\<close>; \<open>reading\<close> says that an \<open>async_read\<close> is
  pending, that is, that the read loop is alive.  The state of the stream is this one flag:
  a session is constructed on a connected socket, and both the handshake of the native path
  and the upgrade negotiated by the HTTP server are taken to leave the stream open.
\<close>

definition new_session :: WebSocketSession where
  "new_session =
     \<lparr>room_id = [], peer_id = [], is_host = False, ws_open = True, reading = False,
      effects = []\<rparr>"

definition new_session_bound :: "string \<Rightarrow> string \<Rightarrow> bool \<Rightarrow> WebSocketSession" where
  "new_session_bound room peer host =
     \<lparr>room_id = room, peer_id = peer, is_host = host, ws_open = True, reading = False,
      effects = []\<rparr>"

definition send :: "string \<Rightarrow> WebSocketSession \<Rightarrow> WebSocketSession" where
  "send message s = s\<lparr>effects := effects s @ [WsWrite message]\<rparr>"

definition close :: "WebSocketSession \<Rightarrow> WebSocketSession" where
  "close s = (if ws_open s then s\<lparr>ws_open := False, effects := effects s @ [WsClose]\<rparr> else s)"

definition do_read :: "WebSocketSession \<Rightarrow> WebSocketSession" where
  "do_read s = s\<lparr>reading := True\<rparr>"

text \<open>
  The streaming server is outside the sources: \<open>add_peer\<close> is a parameter, any function
  from its four arguments to the peer identifier it returns.
\<close>

type_synonym add_peer_fn = "string \<Rightarrow> string \<Rightarrow> string \<Rightarrow> ParticipantRole \<Rightarrow> string"

definition handle_join :: "add_peer_fn \<Rightarrow> WebSocketMessage \<Rightarrow> WebSocketSession \<Rightarrow> WebSocketSession" where
  "handle_join add_peer msg s =
     (let s1 = s\<lparr>room_id := msg_room_id msg\<rparr>;
          s2 = s1\<lparr>is_host := contains (msg_data msg) ''\"role\":\"host\"''\<rparr>;
          role = (if is_host s2 then HOST else VIEWER);
          s3 = s2\<lparr>peer_id := add_peer (room_id s2) (msg_data msg) (msg_data msg) role,
                  effects := effects s2 @ [AddPeer (room_id s2) (msg_data msg) (msg_data msg) role]\<rparr>;
          ack = build_message JOIN
                  (''{\"peer_id\":\"'' @ peer_id s3 @ ''\",\"room_id\":\"'' @ room_id s3 @ ''\"}'')
      in send ack s3)"

definition handle_leave :: "WebSocketSession \<Rightarrow> WebSocketSession" where
  "handle_leave s =
     close (if peer_id s \<noteq> [] then s\<lparr>effects := effects s @ [RemovePeer (peer_id s)]\<rparr> else s)"

definition handle_message :: "add_peer_fn \<Rightarrow> string \<Rightarrow> WebSocketSession \<Rightarrow> fault + WebSocketSession" where
  "handle_message add_peer message s =
     (case parse_message message of
        Inl e \<Rightarrow> Inl e
      | Inr msg \<Rightarrow>
          (case msg_type msg of
             JOIN \<Rightarrow> Inr (handle_join add_peer msg s)
           | OFFER \<Rightarrow> Inr (send (build_message ANSWER (msg_data msg)) s)
           | ANSWER \<Rightarrow> Inr s
           | ICE_CANDIDATE \<Rightarrow> Inr s
           | LEAVE \<Rightarrow> Inr (handle_leave s)
           | _ \<Rightarrow> Inr s))"

text \<open>The completion handler of \<open>async_read\<close>: \<open>ec\<close> says that the read failed.\<close>

definition on_read :: "add_peer_fn \<Rightarrow> bool \<Rightarrow> string \<Rightarrow> WebSocketSession \<Rightarrow> fault + WebSocketSession" where
  "on_read add_peer ec message s =
     (if ec then Inr (s\<lparr>reading := False\<rparr>)
      else case handle_message add_peer message s of
             Inl e \<Rightarrow> Inl e
           | Inr s' \<Rightarrow> Inr (do_read s'))"

text \<open>
  The stream's side of the read loop (Boost.Beast): a pending \<open>async_read\<close> completes with
  the next frame while the stream is open and with an error code once it is closed; without
  a pending read no handler runs.
\<close>

definition frame_arrives :: "add_peer_fn \<Rightarrow> string \<Rightarrow> WebSocketSession \<Rightarrow> fault + WebSocketSession" where
  "frame_arrives add_peer message s =
     (if \<not> reading s then Inr s else on_read add_peer (\<not> ws_open s) message s)"

text \<open>A sequence of frames sent to one session, in order.\<close>

fun frames :: "add_peer_fn \<Rightarrow> string list \<Rightarrow> WebSocketSession \<Rightarrow> fault + WebSocketSession" where
  "frames add_peer [] s = Inr s"
| "frames add_peer (m # ms) s =
     (case frame_arrives add_peer m s of Inl e \<Rightarrow> Inl e | Inr s' \<Rightarrow> frames add_peer ms s')"

text \<open>The completion handler of \<open>async_accept\<close> in \<open>run\<close>.\<close>

definition on_handshake :: "bool \<Rightarrow> WebSocketSession \<Rightarrow> WebSocketSession" where
  "on_handshake ec s = (if ec then s else do_read s)"

definition run_already_upgraded :: "WebSocketSession \<Rightarrow> WebSocketSession" where
  "run_already_upgraded s = do_read s"

text \<open>The peer identifiers handed to \<open>remove_peer\<close>, in call order.\<close>

fun remove_peer_calls :: "effect list \<Rightarrow> string list" where
  "remove_peer_calls [] = []"
| "remove_peer_calls (RemovePeer p # es) = p # remove_peer_calls es"
| "remove_peer_calls (_ # es) = remove_peer_calls es"

section \<open>Session registry and server (websocket_server.cpp)\<close>

text \<open>
  Sessions are shared objects: the server's \<open>heap\<close> holds every session ever constructed,
  addressed by its index (the destructor, which closes the stream of a session that nobody
  refers to any more, is left out), and the registry \<open>sessions\<close> (the \<open>std::map\<close> from peer
  identifier to \<open>shared_ptr\<close>) is the list of its entries in key order, keys distinct.
  \<open>teardown\<close> is the order in which \<open>stop\<close> carries out its steps.
\<close>

datatype teardown_step =
  ClearRunning | CloseSession nat | ClearSessions | CloseAcceptor | StopIoContext | JoinAcceptThread

record WebSocketServer =
  running :: bool
  acceptor_open :: bool
  ioc_stopped :: bool
  accept_thread_joinable :: bool
  sessions :: "(string \<times> nat) list"
  heap :: "WebSocketSession list"
  teardown :: "teardown_step list"

text \<open>\<open>sessions_[peer_id] = session\<close>: overwrite the entry of the key or insert it in key order.\<close>

fun map_assign :: "string \<Rightarrow> nat \<Rightarrow> (string \<times> nat) list \<Rightarrow> (string \<times> nat) list" where
  "map_assign k v [] = [(k, v)]"
| "map_assign k v ((k', v') # rest) =
     (if k = k' then (k, v) # rest
      else if k < k' then (k, v) # (k', v') # rest
      else (k', v') # map_assign k v rest)"

text \<open>\<open>sessions_.erase(peer_id)\<close>.\<close>

definition map_erase :: "string \<Rightarrow> (string \<times> nat) list \<Rightarrow> (string \<times> nat) list" where
  "map_erase k m = filter (\<lambda>(k', v). k' \<noteq> k) m"

text \<open>
  A call through a session pointer.  A pointer in the registry always refers to a session of
  the heap; for any other address nothing happens.
\<close>

definition with_session :: "nat \<Rightarrow> (WebSocketSession \<Rightarrow> WebSocketSession) \<Rightarrow> WebSocketSession list \<Rightarrow> WebSocketSession list" where
  "with_session a f h = (if a < length h then h[a := f (h ! a)] else h)"

definition register_session :: "string \<Rightarrow> nat \<Rightarrow> WebSocketServer \<Rightarrow> WebSocketServer" where
  "register_session peer a srv = srv\<lparr>sessions := map_assign peer a (sessions srv)\<rparr>"

definition unregister_session :: "string \<Rightarrow> WebSocketServer \<Rightarrow> WebSocketServer" where
  "unregister_session peer srv = srv\<lparr>sessions := map_erase peer (sessions srv)\<rparr>"

fun broadcast_loop :: "(string \<times> nat) list \<Rightarrow> string \<Rightarrow> string \<Rightarrow> string \<Rightarrow> WebSocketSession list \<Rightarrow> WebSocketSession list" where
  "broadcast_loop [] room message exclude h = h"
| "broadcast_loop ((peer, a) # rest) room message exclude h =
     broadcast_loop rest room message exclude
       (if a < length h \<and> room_id (h ! a) = room \<and> peer \<noteq> exclude
        then with_session a (send message) h else h)"

definition broadcast_to_room :: "string \<Rightarrow> string \<Rightarrow> string \<Rightarrow> WebSocketServer \<Rightarrow> WebSocketServer" where
  "broadcast_to_room room message exclude srv =
     srv\<lparr>heap := broadcast_loop (sessions srv) room message exclude (heap srv)\<rparr>"

definition send_to_peer :: "string \<Rightarrow> string \<Rightarrow> WebSocketServer \<Rightarrow> WebSocketServer" where
  "send_to_peer peer message srv =
     (case map_of (sessions srv) peer of
        None \<Rightarrow> srv
      | Some a \<Rightarrow> srv\<lparr>heap := with_session a (send message) (heap srv)\<rparr>)"

text \<open>The loop of \<open>stop\<close> over the registry: \<open>session->close()\<close> for every entry.\<close>

fun close_all :: "(string \<times> nat) list \<Rightarrow> WebSocketServer \<Rightarrow> WebSocketServer" where
  "close_all [] srv = srv"
| "close_all ((peer, a) # rest) srv =
     close_all rest
       (srv\<lparr>heap := with_session a close (heap srv), teardown := teardown srv @ [CloseSession a]\<rparr>)"

definition stop :: "WebSocketServer \<Rightarrow> WebSocketServer" where
  "stop srv =
     (if \<not> running srv then srv
      else
        let s1 = srv\<lparr>running := False, teardown := teardown srv @ [ClearRunning]\<rparr>;
            s2 = close_all (sessions s1) s1;
            s3 = s2\<lparr>sessions := [], teardown := teardown s2 @ [ClearSessions]\<rparr>;
            s4 = (if acceptor_open s3
                  then s3\<lparr>acceptor_open := False, teardown := teardown s3 @ [CloseAcceptor]\<rparr> else s3);
            s5 = s4\<lparr>ioc_stopped := True, teardown := teardown s4 @ [StopIoContext]\<rparr>;
            s6 = (if accept_thread_joinable s5
                  then s5\<lparr>accept_thread_joinable := False, teardown := teardown s5 @ [JoinAcceptThread]\<rparr>
                  else s5)
        in s6)"

text \<open>
  The completion handler of the acceptor: a session of the native path is constructed and
  started, and never handed to the registry.  Re-arming the accept changes no field.
\<close>

definition on_accept :: "bool \<Rightarrow> WebSocketServer \<Rightarrow> WebSocketServer" where
  "on_accept ec srv = (if ec then srv else srv\<lparr>heap := heap srv @ [new_session]\<rparr>)"

text \<open>
  The handoff of an upgraded connection.  \<open>assign_ok\<close> says that \<open>socket.assign\<close> did
  not throw; its exception is caught and logged, and nothing else has happened by then.
\<close>

definition accept_upgraded_connection :: "bool \<Rightarrow> string \<Rightarrow> string \<Rightarrow> bool \<Rightarrow> WebSocketServer \<Rightarrow> WebSocketServer" where
  "accept_upgraded_connection assign_ok room peer host srv =
     (if \<not> assign_ok then srv
      else
        let a = length (heap srv);
            s1 = srv\<lparr>heap := heap srv @ [new_session_bound room peer host]\<rparr>;
            s2 = register_session peer a s1
        in s2\<lparr>heap := with_session a run_already_upgraded (heap s2)\<rparr>)"

text \<open>Everything that happens to a server, each handler or call as one step.\<close>

datatype event =
    Accept bool
  | Handshake nat bool
  | Upgraded bool string string bool
  | Frame nat string
  | Broadcast string string string
  | SendToPeer string string
  | Unregister string
  | Stop

definition session_frame :: "add_peer_fn \<Rightarrow> nat \<Rightarrow> string \<Rightarrow> WebSocketServer \<Rightarrow> fault + WebSocketServer" where
  "session_frame add_peer a message srv =
     (if a < length (heap srv) then
        (case frame_arrives add_peer message (heap srv ! a) of
           Inl e \<Rightarrow> Inl e
         | Inr s' \<Rightarrow> Inr (srv\<lparr>heap := (heap srv)[a := s']\<rparr>))
      else Inr srv)"

fun step :: "add_peer_fn \<Rightarrow> event \<Rightarrow> WebSocketServer \<Rightarrow> fault + WebSocketServer" where
  "step add_peer (Accept ec) srv = Inr (on_accept ec srv)"
| "step add_peer (Handshake a ec) srv = Inr (srv\<lparr>heap := with_session a (on_handshake ec) (heap srv)\<rparr>)"
| "step add_peer (Upgraded ok room peer host) srv = Inr (accept_upgraded_connection ok room peer host srv)"
| "step add_peer (Frame a message) srv = session_frame add_peer a message srv"
| "step add_peer (Broadcast room message exclude) srv = Inr (broadcast_to_room room message exclude srv)"
| "step add_peer (SendToPeer peer message) srv = Inr (send_to_peer peer message srv)"
| "step add_peer (Unregister peer) srv = Inr (unregister_session peer srv)"
| "step add_peer Stop srv = Inr (stop srv)"

fun run :: "add_peer_fn \<Rightarrow> event list \<Rightarrow> WebSocketServer \<Rightarrow> fault + WebSocketServer" where
  "run add_peer [] srv = Inr srv"
| "run add_peer (e # es) srv =
     (case step add_peer e srv of Inl x \<Rightarrow> Inl x | Inr srv' \<Rightarrow> run add_peer es srv')"

text \<open>Every pointer of the registry refers to a session of the heap.\<close>

definition registry_ok :: "WebSocketServer \<Rightarrow> bool" where
  "registry_ok srv = list_all (\<lambda>(peer, a). a < length (heap srv)) (sessions srv)"

section \<open>The handshake credential (http_server.cpp, OpenSSL)\<close>

text \<open>
  \<open>compute_websocket_accept\<close> calls OpenSSL: \<open>SHA1\<close> is the hash function of
  FIPS 180-4 on bytes, with its 32-bit words as \<^typ>\<open>32 word\<close>, and the \<open>BIO_f_base64\<close>
  filter with \<open>BIO_FLAGS_BASE64_NO_NL\<close> is the base64 encoding of RFC 4648 on one line.
\<close>

type_synonym byte = "8 word"
type_synonym u32 = "32 word"

text \<open>Rotation of a 32-bit word to the left, for \<open>0 < n < 32\<close>.\<close>

definition rotl :: "nat \<Rightarrow> u32 \<Rightarrow> u32" where
  "rotl n x = push_bit n x OR drop_bit (32 - n) x"

text \<open>
  Padding: the byte \<open>0x80\<close>, zero bytes up to 56 modulo 64, and the length of the message
  in bits as 64 bits, most significant byte first.
\<close>

definition be64 :: "nat \<Rightarrow> byte list" where
  "be64 n = map (\<lambda>i. word_of_nat (n div 2 ^ (8 * i))) [7, 6, 5, 4, 3, 2, 1, 0]"

fun zeros :: "nat \<Rightarrow> byte list" where
  "zeros n = (if n = 0 then [] else 0 # zeros (n - 1))"

declare zeros.simps [simp del]

definition sha1_pad :: "byte list \<Rightarrow> byte list" where
  "sha1_pad m = m @ [0x80] @ zeros ((119 - length m mod 64) mod 64) @ be64 (8 * length m)"

text \<open>The padded message as 32-bit words, most significant byte first.\<close>

fun be32_words :: "byte list \<Rightarrow> u32 list" where
  "be32_words (a # b # c # d # r) =
     (push_bit 24 (ucast a) OR push_bit 16 (ucast b) OR push_bit 8 (ucast c) OR ucast d)
       # be32_words r"
| "be32_words _ = []"

text \<open>
  The message schedule of one block.  The words so far are kept newest first, so that the
  words 3, 8, 14 and 16 places back are at positions 2, 7, 13 and 15; \<open>n\<close> counts the words
  still to add.
\<close>

fun sha1_extend :: "nat \<Rightarrow> u32 list \<Rightarrow> u32 list" where
  "sha1_extend n r =
     (if n = 0 then r
      else sha1_extend (n - 1) (rotl 1 (r ! 2 XOR r ! 7 XOR r ! 13 XOR r ! 15) # r))"

declare sha1_extend.simps [simp del]

text \<open>The round functions and constants, by round number.\<close>

definition sha1_f :: "nat \<Rightarrow> u32 \<Rightarrow> u32 \<Rightarrow> u32 \<Rightarrow> u32" where
  "sha1_f t b c d =
     (if t < 20 then (b AND c) OR (NOT b AND d)
      else if t < 40 then b XOR c XOR d
      else if t < 60 then (b AND c) OR (b AND d) OR (c AND d)
      else b XOR c XOR d)"

definition sha1_k :: "nat \<Rightarrow> u32" where
  "sha1_k t = (if t < 20 then 0x5A827999 else if t < 40 then 0x6ED9EBA1
               else if t < 60 then 0x8F1BBCDC else 0xCA62C1D6)"

type_synonym sha1_state = "u32 \<times> u32 \<times> u32 \<times> u32 \<times> u32"

text \<open>The rounds over the schedule, from round \<open>t\<close> on; then one block and all blocks.\<close>

fun sha1_rounds :: "nat \<Rightarrow> u32 list \<Rightarrow> sha1_state \<Rightarrow> sha1_state" where
  "sha1_rounds t [] s = s"
| "sha1_rounds t (w # ws) (a, b, c, d, e) =
     sha1_rounds (t + 1) ws (rotl 5 a + sha1_f t b c d + e + sha1_k t + w, a, rotl 30 b, c, d)"

definition sha1_block :: "sha1_state \<Rightarrow> u32 list \<Rightarrow> sha1_state" where
  "sha1_block h blk =
     (case (h, sha1_rounds 0 (rev (sha1_extend 64 (rev blk))) h) of
        ((h0, h1, h2, h3, h4), (a, b, c, d, e)) \<Rightarrow> (h0 + a, h1 + b, h2 + c, h3 + d, h4 + e))"

fun sha1_blocks :: "sha1_state \<Rightarrow> u32 list \<Rightarrow> sha1_state" where
  "sha1_blocks h ws = (if ws = [] then h else sha1_blocks (sha1_block h (take 16 ws)) (drop 16 ws))"

declare sha1_blocks.simps [simp del]

definition be32_bytes :: "u32 \<Rightarrow> byte list" where
  "be32_bytes x = [ucast (drop_bit 24 x), ucast (drop_bit 16 x), ucast (drop_bit 8 x), ucast x]"

definition SHA1 :: "byte list \<Rightarrow> byte list" where
  "SHA1 m =
     (case sha1_blocks (0x67452301, 0xEFCDAB89, 0x98BADCFE, 0x10325476, 0xC3D2E1F0)
             (be32_words (sha1_pad m)) of
        (a, b, c, d, e) \<Rightarrow> concat (map be32_bytes [a, b, c, d, e]))"

text \<open>\<open>input.c_str()\<close> read as unsigned bytes.\<close>

definition bytes_of :: "string \<Rightarrow> byte list" where
  "bytes_of s = map of_char s"

text \<open>Base64: three bytes give four characters; a last group of one or two bytes is padded.\<close>

definition base64_alphabet :: string where
  "base64_alphabet = ''ABCDEFGHIJKLMNOPQRSTUVWXYZabcdefghijklmnopqrstuvwxyz0123456789+/''"

definition base64_char :: "byte \<Rightarrow> char" where
  "base64_char i = base64_alphabet ! unat i"

fun base64_encode :: "byte list \<Rightarrow> string" where
  "base64_encode (a # b # c # r) =
     [base64_char (drop_bit 2 a),
      base64_char (push_bit 4 (a AND 3) OR drop_bit 4 b),
      base64_char (push_bit 2 (b AND 15) OR drop_bit 6 c),
      base64_char (c AND 63)] @ base64_encode r"
| "base64_encode [a, b] =
     [base64_char (drop_bit 2 a),
      base64_char (push_bit 4 (a AND 3) OR drop_bit 4 b),
      base64_char (push_bit 2 (b AND 15)),
      CHR ''='']"
| "base64_encode [a] =
     [base64_char (drop_bit 2 a), base64_char (push_bit 4 (a AND 3)), CHR ''='', CHR ''='']"
| "base64_encode [] = []"

definition compute_websocket_accept :: "string \<Rightarrow> string" where
  "compute_websocket_accept key =
     base64_encode (SHA1 (bytes_of (key @ ''258EAFA5-E914-47DA-95CA-C5AB0DC85B11'')))"

section \<open>The HTTP side of the upgrade (http_server.cpp)\<close>

text \<open>
  Modelled from the spec: the structure \<open>HttpRequest\<close> of \<open>http_server.h\<close>, which is not
  among the sources.  The handshake works on the request path and on the headers; the code
  reads them as \<open>req.path\<close> and as the map \<open>req.headers\<close> from header name to value.
\<close>

record HttpRequest =
  req_path :: string
  req_headers :: "string \<rightharpoonup> string"

text \<open>\<open>::tolower\<close> in the C locale.\<close>

definition tolower :: "char \<Rightarrow> char" where
  "tolower c = (if CHR ''A'' \<le> c \<and> c \<le> CHR ''Z'' then char_of (of_char c + (32::nat)) else c)"

definition is_websocket_upgrade :: "HttpRequest \<Rightarrow> bool" where
  "is_websocket_upgrade req =
     (case req_headers req ''Upgrade'' of
        None \<Rightarrow> False
      | Some upgrade_val \<Rightarrow>
          (if req_headers req ''Connection'' = None \<or> req_headers req ''Sec-WebSocket-Key'' = None
           then False
           else contains (map tolower upgrade_val) ''websocket''))"

text \<open>\<open>std::to_string\<close> of a 64-bit count: decimal digits, with a sign when negative.\<close>

fun digits :: "nat \<Rightarrow> string" where
  "digits n =
     (if n < 10 then [char_of (48 + n)] else digits (n div 10) @ [char_of (48 + n mod 10)])"

declare digits.simps [simp del]

definition to_string :: "int \<Rightarrow> string" where
  "to_string i = (if i < 0 then CHR ''-'' # digits (nat (- i)) else digits (nat i))"

text \<open>
  The environment of one upgrade: whether \<open>write\<close> on the client socket succeeded, the
  reading of the system clock, and whether \<open>socket.assign\<close> in the WebSocket server
  succeeded.
\<close>

record upgrade_env =
  write_ok :: bool
  now :: int
  assign_ok :: bool

text \<open>
  The path of an upgrade request.  \<open>InvalidRole\<close> is the early \<open>return false\<close>;
  otherwise the room identifier (empty when the path has no room or no role segment) and
  \<open>is_host\<close>.
\<close>

datatype path_result = InvalidRole | Parsed string bool

definition parse_upgrade_path :: "string \<Rightarrow> fault + path_result" where
  "parse_upgrade_path p =
     (case str_find p ''/room/'' 0 of
        None \<Rightarrow> Inr (Parsed [] False)
      | Some room_pos \<Rightarrow>
          (let id_start = room_pos + 6 in
           case str_find p ''/'' id_start of
             None \<Rightarrow> Inr (Parsed [] False)
           | Some id_end \<Rightarrow>
               (case substr p id_start (id_end - id_start) of
                  Inl e \<Rightarrow> Inl e
                | Inr room \<Rightarrow>
                    (case substr_from p (id_end + 1) of
                       Inl e \<Rightarrow> Inl e
                     | Inr role \<Rightarrow>
                         if role = ''host'' then Inr (Parsed room True)
                         else if role = ''viewer'' then Inr (Parsed room False)
                         else Inr InvalidRole))))"

definition crlf :: string where
  "crlf = [CHR 0x0D, CHR 0x0A]"

definition handshake_response :: "string \<Rightarrow> string" where
  "handshake_response accept_key =
     ''HTTP/1.1 101 Switching Protocols'' @ crlf @
     ''Upgrade: websocket'' @ crlf @
     ''Connection: Upgrade'' @ crlf @
     ''Sec-WebSocket-Accept: '' @ accept_key @ crlf @ crlf"

definition make_peer_id :: "string \<Rightarrow> bool \<Rightarrow> int \<Rightarrow> string" where
  "make_peer_id room host t =
     room @ ''_'' @ (if host then ''host'' else ''viewer'') @ ''_'' @ to_string t"

text \<open>
  The result of \<open>handle_websocket_upgrade\<close>: its return value, the response it passed to
  \<open>write\<close> (if it came that far), and the WebSocket server (\<open>websocket_server_\<close>, which
  may be null) after the call.
\<close>

record upgrade_result =
  accepted :: bool
  response :: "string option"
  ws_server :: "WebSocketServer option"

definition handle_websocket_upgrade :: "upgrade_env \<Rightarrow> WebSocketServer option \<Rightarrow> HttpRequest \<Rightarrow> fault + upgrade_result" where
  "handle_websocket_upgrade env ws req =
     (case ws of
        None \<Rightarrow> Inr \<lparr>accepted = False, response = None, ws_server = ws\<rparr>
      | Some srv \<Rightarrow>
          (case parse_upgrade_path (req_path req) of
             Inl e \<Rightarrow> Inl e
           | Inr InvalidRole \<Rightarrow> Inr \<lparr>accepted = False, response = None, ws_server = ws\<rparr>
           | Inr (Parsed room host) \<Rightarrow>
               if room = [] then Inr \<lparr>accepted = False, response = None, ws_server = ws\<rparr>
               else
                 (case req_headers req ''Sec-WebSocket-Key'' of
                    None \<Rightarrow> Inr \<lparr>accepted = False, response = None, ws_server = ws\<rparr>
                  | Some key \<Rightarrow>
                      (let response_str = handshake_response (compute_websocket_accept key) in
                       if \<not> write_ok env
                       then Inr \<lparr>accepted = False, response = Some response_str, ws_server = ws\<rparr>
                       else
                         Inr \<lparr>accepted = True, response = Some response_str,
                              ws_server =
                                Some (accept_upgraded_connection (assign_ok env) room
                                        (make_peer_id room host (now env)) host srv)\<rparr>))))"

text \<open>
  \<open>handle_client\<close> from the parsed request on: an upgrade request goes to the handshake,
  and the socket is kept when that returns true and closed when it returns false or throws;
  any other request goes to the route table, whose handlers are not modelled.
\<close>

datatype client_outcome = SocketHandedOver | SocketClosed | OrdinaryRouting

definition handle_client :: "upgrade_env \<Rightarrow> WebSocketServer option \<Rightarrow> HttpRequest \<Rightarrow> client_outcome \<times> WebSocketServer option" where
  "handle_client env ws req =
     (if is_websocket_upgrade req then
        (case handle_websocket_upgrade env ws req of
           Inl e \<Rightarrow> (SocketClosed, ws)
         | Inr r \<Rightarrow> (if accepted r then SocketHandedOver else SocketClosed, ws_server r))
      else (OrdinaryRouting, ws))"

section \<open>Searching in strings\<close>

lemma marker_lengths:
  "length ''\"room_id\":\"'' = 11" "length ''/room/'' = 6" "length ''\"type\":\"join\"'' = 13"
  by simp_all

lemma find_scan_Some:
  "find_scan needle xs i = Some p \<Longrightarrow>
     i \<le> p \<and> p - i + length needle \<le> length xs \<and> take (length needle) (drop (p - i) xs) = needle"
proof (induction xs arbitrary: i)
  case Nil
  then show ?case by (simp split: if_splits)
next
  case (Cons c cs)
  show ?case
  proof (cases "take (length needle) (c # cs) = needle")
    case True
    with Cons.prems have "p = i" by simp
    moreover have "length needle \<le> length (c # cs)"
    proof -
      have "length (take (length needle) (c # cs)) \<le> length (c # cs)" by simp
      with True show ?thesis by simp
    qed
    ultimately show ?thesis using True by simp
  next
    case False
    with Cons.prems have "find_scan needle cs (Suc i) = Some p" by simp
    from Cons.IH [OF this] have ih: "Suc i \<le> p" "p - Suc i + length needle \<le> length cs"
      "take (length needle) (drop (p - Suc i) cs) = needle"
      by blast+
    from ih(1) have "p - i = Suc (p - Suc i)" by simp
    with ih show ?thesis by simp
  qed
qed

lemma str_find_Some:
  assumes "str_find hay needle pos = Some p"
  shows "pos \<le> p" and "p + length needle \<le> length hay"
    and "take (length needle) (drop p hay) = needle"
proof -
  from assms have le: "pos \<le> length hay" and f: "find_scan needle (drop pos hay) pos = Some p"
    by (auto simp: str_find_def split: if_splits)
  from find_scan_Some [OF f] le show "pos \<le> p" "p + length needle \<le> length hay"
    "take (length needle) (drop p hay) = needle"
    by auto
qed

lemma find_scan_None_iff:
  "find_scan needle xs i \<noteq> None \<longleftrightarrow> (\<exists>pre post. xs = pre @ needle @ post)"
proof (induction xs arbitrary: i)
  case Nil
  then show ?case by simp
next
  case (Cons c cs)
  show ?case
  proof (cases "take (length needle) (c # cs) = needle")
    case True
    then have "c # cs = [] @ needle @ drop (length needle) (c # cs)"
      by (metis append_Nil append_take_drop_id)
    then have "\<exists>pre post. c # cs = pre @ needle @ post" by blast
    with True show ?thesis by simp
  next
    case False
    have "(\<exists>pre post. c # cs = pre @ needle @ post) \<longleftrightarrow> (\<exists>pre post. cs = pre @ needle @ post)"
    proof
      assume "\<exists>pre post. c # cs = pre @ needle @ post"
      then obtain pre post where e: "c # cs = pre @ needle @ post" by blast
      show "\<exists>pre post. cs = pre @ needle @ post"
      proof (cases pre)
        case Nil
        with e have "take (length needle) (c # cs) = needle" by simp
        with False show ?thesis by simp
      next
        case (Cons a pre')
        with e have "cs = pre' @ needle @ post" by simp
        then show ?thesis by blast
      qed
    next
      assume "\<exists>pre post. cs = pre @ needle @ post"
      then obtain pre post where "cs = pre @ needle @ post" by blast
      then have "c # cs = (c # pre) @ needle @ post" by simp
      then show "\<exists>pre post. c # cs = pre @ needle @ post" by blast
    qed
    with False Cons.IH [of "Suc i"] show ?thesis by simp
  qed
qed

lemma contains_iff: "contains hay needle \<longleftrightarrow> (\<exists>pre post. hay = pre @ needle @ post)"
  using find_scan_None_iff [of needle hay 0] by (simp add: contains_def str_find_def)

lemma find_scan_skip:
  "needle \<noteq> [] \<Longrightarrow> hd needle \<notin> set pre \<Longrightarrow>
   find_scan needle (pre @ needle @ post) i = Some (i + length pre)"
proof (induction pre arbitrary: i)
  case Nil
  then show ?case by (cases needle) simp_all
next
  case (Cons a pre)
  from Cons.prems have "take (length needle) ((a # pre) @ needle @ post) \<noteq> needle"
    by (cases needle) auto
  with Cons show ?case by simp
qed

section \<open>The decoder never fails\<close>

lemma extract_room_id_ok: "\<exists>rid. extract_room_id json = Inr rid"
proof (cases "str_find json ''\"room_id\":\"'' 0")
  case None
  then show ?thesis by (simp add: extract_room_id_def)
next
  case (Some room_pos)
  note found = Some
  from str_find_Some(2) [OF Some] have le: "room_pos + 11 \<le> length json" by simp
  show ?thesis
  proof (cases "str_find json ''\"'' (room_pos + 11)")
    case None
    with Some show ?thesis by (simp add: extract_room_id_def)
  next
    case (Some e)
    with found le show ?thesis
      by (simp add: extract_room_id_def substr_def Let_def)
  qed
qed

lemma parse_message_ok: "\<exists>msg. parse_message json = Inr msg \<and> msg_data msg = json"
proof -
  obtain rid where "extract_room_id json = Inr rid"
    using extract_room_id_ok by blast
  then show ?thesis by (simp add: parse_message_def)
qed

lemma do_read_idle: "reading s \<Longrightarrow> do_read s = s"
  by (simp add: do_read_def)

text \<open>
  C6.  The decoder returns a message for every input (it never throws, and the message carries
  the input as its data); an input that contains none of the seven type markers, a missing
  type field included, decodes to type ERROR; and a frame that decodes to ERROR leaves the
  session as it was: no field changes, nothing is sent, the stream stays open and the read
  loop goes on.
\<close>

theorem parse_message_total_and_error_is_noop:
  "(\<exists>msg. parse_message json = Inr msg \<and> msg_data msg = json) \<and>
   (\<not> contains json ''\"type\":\"join\"'' \<and> \<not> contains json ''\"type\":\"JOIN\"'' \<and>
    \<not> contains json ''\"type\":\"offer\"'' \<and> \<not> contains json ''\"type\":\"answer\"'' \<and>
    \<not> contains json ''\"type\":\"ice_candidate\"'' \<and> \<not> contains json ''\"type\":\"candidate\"'' \<and>
    \<not> contains json ''\"type\":\"leave\"''
    \<longrightarrow> (\<exists>msg. parse_message json = Inr msg \<and> msg_type msg = ERROR)) \<and>
   (parse_message json = Inr msg \<and> msg_type msg = ERROR
    \<longrightarrow> handle_message add_peer json s = Inr s \<and>
        (ws_open s \<and> reading s \<longrightarrow> frame_arrives add_peer json s = Inr s))"
proof (intro conjI impI)
  show "\<exists>msg. parse_message json = Inr msg \<and> msg_data msg = json"
    by (rule parse_message_ok)
next
  assume "\<not> contains json ''\"type\":\"join\"'' \<and> \<not> contains json ''\"type\":\"JOIN\"'' \<and>
    \<not> contains json ''\"type\":\"offer\"'' \<and> \<not> contains json ''\"type\":\"answer\"'' \<and>
    \<not> contains json ''\"type\":\"ice_candidate\"'' \<and> \<not> contains json ''\"type\":\"candidate\"'' \<and>
    \<not> contains json ''\"type\":\"leave\"''"
  then show "\<exists>msg. parse_message json = Inr msg \<and> msg_type msg = ERROR"
    by (simp add: parse_message_def)
next
  assume a: "parse_message json = Inr msg \<and> msg_type msg = ERROR"
  then show h: "handle_message add_peer json s = Inr s"
    by (simp add: handle_message_def)
  assume "ws_open s \<and> reading s"
  with h show "frame_arrives add_peer json s = Inr s"
    by (simp add: frame_arrives_def on_read_def do_read_idle)
qed

theorem parse_message_total_and_error_is_noop_witness:
  "parse_message ''{\"type\":\"ping\"}'' =
     Inr \<lparr>msg_type = ERROR, msg_data = ''{\"type\":\"ping\"}'', msg_room_id = [], msg_peer_id = []\<rparr> \<and>
   frame_arrives (\<lambda>r d m x. ''p1'') ''{\"type\":\"ping\"}'' (do_read new_session) = Inr (do_read new_session)"
proof -
  have p: "parse_message ''{\"type\":\"ping\"}'' =
     Inr \<lparr>msg_type = ERROR, msg_data = ''{\"type\":\"ping\"}'', msg_room_id = [], msg_peer_id = []\<rparr>"
    by (simp add: parse_message_def contains_def str_find_def)
  have o: "ws_open (do_read new_session) \<and> reading (do_read new_session)"
    by (simp add: do_read_def new_session_def)
  from parse_message_total_and_error_is_noop
         [of "''{\"type\":\"ping\"}''"
             "\<lparr>msg_type = ERROR, msg_data = ''{\"type\":\"ping\"}'', msg_room_id = [], msg_peer_id = []\<rparr>"
             "\<lambda>r d m x. ''p1''" "do_read new_session"] p o
  show ?thesis by simp
qed

section \<open>The signaling router\<close>

text \<open>
  C1.  A frame that decodes to a JOIN message, read by any session (one that has not joined
  in particular): the room identifier of the message becomes the session's, the role is HOST
  exactly when the payload contains the text \<open>"role":"host"\<close> and VIEWER otherwise,
  \<open>add_peer\<close> is called once with the room, the payload twice and the role, and the
  identifier it returns becomes the session's; the one frame written is the JOIN
  acknowledgement with that peer and room identifier, on the session's own stream; the
  stream stays as it was and the read loop goes on.  In a server, no other session and no
  registry entry changes.
\<close>

theorem join_binds_identity_and_acks:
  assumes "parse_message message = Inr msg" and "msg_type msg = JOIN"
  shows "\<exists>s'. on_read add_peer False message s = Inr s' \<and>
           room_id s' = msg_room_id msg \<and>
           (is_host s' \<longleftrightarrow> (\<exists>pre post. msg_data msg = pre @ ''\"role\":\"host\"'' @ post)) \<and>
           peer_id s' =
             add_peer (msg_room_id msg) (msg_data msg) (msg_data msg)
               (if is_host s' then HOST else VIEWER) \<and>
           effects s' =
             effects s @
               [AddPeer (msg_room_id msg) (msg_data msg) (msg_data msg)
                  (if is_host s' then HOST else VIEWER),
                WsWrite (''{\"type\":\"join\",\"data\":{\"peer_id\":\"'' @ peer_id s' @
                         ''\",\"room_id\":\"'' @ room_id s' @ ''\"}}'')] \<and>
           ws_open s' = ws_open s \<and> reading s' \<and>
           (a < length (heap srv) \<and> heap srv ! a = s \<and> ws_open s \<and> reading s
            \<longrightarrow> session_frame add_peer a message srv = Inr (srv\<lparr>heap := (heap srv)[a := s']\<rparr>))"
proof -
  let ?s' = "do_read (handle_join add_peer msg s)"
  have r: "on_read add_peer False message s = Inr ?s'"
    using assms by (simp add: on_read_def handle_message_def)
  have "room_id ?s' = msg_room_id msg"
    by (simp add: do_read_def handle_join_def send_def Let_def)
  moreover have "is_host ?s' \<longleftrightarrow> (\<exists>pre post. msg_data msg = pre @ ''\"role\":\"host\"'' @ post)"
    by (simp add: do_read_def handle_join_def send_def Let_def contains_iff)
  moreover have "peer_id ?s' =
      add_peer (msg_room_id msg) (msg_data msg) (msg_data msg) (if is_host ?s' then HOST else VIEWER)"
    by (simp add: do_read_def handle_join_def send_def Let_def)
  moreover have "effects ?s' =
      effects s @
        [AddPeer (msg_room_id msg) (msg_data msg) (msg_data msg)
           (if is_host ?s' then HOST else VIEWER),
         WsWrite (''{\"type\":\"join\",\"data\":{\"peer_id\":\"'' @ peer_id ?s' @
                  ''\",\"room_id\":\"'' @ room_id ?s' @ ''\"}}'')]"
    by (simp add: do_read_def handle_join_def send_def Let_def build_message_def type_name_def)
  moreover have "ws_open ?s' = ws_open s" and "reading ?s'"
    by (simp_all add: do_read_def handle_join_def send_def Let_def)
  moreover have "a < length (heap srv) \<and> heap srv ! a = s \<and> ws_open s \<and> reading s
      \<longrightarrow> session_frame add_peer a message srv = Inr (srv\<lparr>heap := (heap srv)[a := ?s']\<rparr>)"
    using r by (simp add: session_frame_def frame_arrives_def)
  ultimately show ?thesis using r by blast
qed

theorem join_binds_identity_and_acks_witness:
  "\<exists>s'. on_read (\<lambda>r d m x. ''p7'') False
          ''{\"type\":\"join\",\"room_id\":\"r1\",\"role\":\"host\"}'' (do_read new_session) = Inr s' \<and>
        room_id s' = ''r1'' \<and> is_host s' \<and> peer_id s' = ''p7'' \<and> ws_open s' \<and> reading s' \<and>
        session_frame (\<lambda>r d m x. ''p7'') 0 ''{\"type\":\"join\",\"room_id\":\"r1\",\"role\":\"host\"}''
          \<lparr>running = True, acceptor_open = True, ioc_stopped = False,
           accept_thread_joinable = True, sessions = [], heap = [do_read new_session],
           teardown = []\<rparr> =
        Inr \<lparr>running = True, acceptor_open = True, ioc_stopped = False,
             accept_thread_joinable = True, sessions = [], heap = [s'], teardown = []\<rparr>"
proof -
  let ?m = "''{\"type\":\"join\",\"room_id\":\"r1\",\"role\":\"host\"}''"
  let ?msg = "\<lparr>msg_type = JOIN, msg_data = ?m, msg_room_id = ''r1'', msg_peer_id = []\<rparr>"
  let ?ap = "\<lambda>r d m x. ''p7''"
  let ?s = "do_read new_session"
  let ?srv = "\<lparr>running = True, acceptor_open = True, ioc_stopped = False,
           accept_thread_joinable = True, sessions = [], heap = [?s], teardown = []\<rparr>"
  have p: "parse_message ?m = Inr ?msg"
    by (simp add: parse_message_def contains_def str_find_def extract_room_id_def substr_def)
  have t: "msg_type ?msg = JOIN" by simp
  have h: "\<exists>pre post. msg_data ?msg = pre @ ''\"role\":\"host\"'' @ post"
    using contains_iff [of ?m "''\"role\":\"host\"''"]
    by (simp add: contains_def str_find_def)
  have g: "0 < length (heap ?srv) \<and> heap ?srv ! 0 = ?s \<and> ws_open ?s \<and> reading ?s"
    by (simp add: do_read_def new_session_def)
  from join_binds_identity_and_acks [OF p t, of ?ap ?s 0 ?srv]
  obtain s' where 1: "on_read ?ap False ?m ?s = Inr s'"
    and 2: "room_id s' = msg_room_id ?msg"
    and 3: "is_host s' \<longleftrightarrow> (\<exists>pre post. msg_data ?msg = pre @ ''\"role\":\"host\"'' @ post)"
    and 4: "peer_id s' = ?ap (msg_room_id ?msg) (msg_data ?msg) (msg_data ?msg)
               (if is_host s' then HOST else VIEWER)"
    and 5: "ws_open s' = ws_open ?s" and 6: "reading s'"
    and 7: "0 < length (heap ?srv) \<and> heap ?srv ! 0 = ?s \<and> ws_open ?s \<and> reading ?s
            \<longrightarrow> session_frame ?ap 0 ?m ?srv = Inr (?srv\<lparr>heap := (heap ?srv)[0 := s']\<rparr>)"
    by blast
  from 3 h have 8: "is_host s'" by blast
  from 7 g have 9: "session_frame ?ap 0 ?m ?srv = Inr (?srv\<lparr>heap := (heap ?srv)[0 := s']\<rparr>)"
    by blast
  from 5 have 10: "ws_open s'" by (simp add: do_read_def new_session_def)
  from 1 2 4 6 8 9 10 show ?thesis by simp
qed

lemma closed_session_ignores_frames:
  "\<not> ws_open s \<Longrightarrow>
   \<exists>s'. frames add_peer ms s = Inr s' \<and> effects s' = effects s \<and> \<not> ws_open s' \<and>
        room_id s' = room_id s \<and> peer_id s' = peer_id s \<and> is_host s' = is_host s"
proof (induction ms arbitrary: s)
  case Nil
  then show ?case by simp
next
  case (Cons m ms)
  let ?s1 = "if reading s then s\<lparr>reading := False\<rparr> else s"
  from Cons.prems have f: "frame_arrives add_peer m s = Inr ?s1"
    by (simp add: frame_arrives_def on_read_def)
  from Cons.prems have "\<not> ws_open ?s1" by simp
  from Cons.IH [OF this] f show ?case by auto
qed

text \<open>
  C2.  A frame that decodes to a LEAVE message, read by an open session whose peer identifier
  is not empty: \<open>remove_peer\<close> is called once, with that identifier, then the stream is
  closed, and nothing else happens.  Once a session is closed, its pending read fails and the
  read loop ends, so whatever frames are sent to it afterwards (a second LEAVE among them)
  reach no handler: there is no further call to \<open>remove_peer\<close>, nor any other effect.
\<close>

theorem leave_removes_peer_exactly_once:
  "(parse_message message = Inr msg \<and> msg_type msg = LEAVE \<and> peer_id s \<noteq> [] \<and>
    ws_open s \<and> reading s
    \<longrightarrow> (\<exists>s1. frame_arrives add_peer message s = Inr s1 \<and>
              effects s1 = effects s @ [RemovePeer (peer_id s), WsClose] \<and>
              remove_peer_calls (effects s1) = remove_peer_calls (effects s) @ [peer_id s] \<and>
              \<not> ws_open s1 \<and>
              (\<exists>s2. frames add_peer ms s1 = Inr s2 \<and> effects s2 = effects s1 \<and> \<not> ws_open s2))) \<and>
   (\<not> ws_open c
    \<longrightarrow> (\<exists>c'. frames add_peer ms c = Inr c' \<and> effects c' = effects c \<and>
              remove_peer_calls (effects c') = remove_peer_calls (effects c) \<and> \<not> ws_open c'))"
proof (intro conjI impI)
  assume a: "parse_message message = Inr msg \<and> msg_type msg = LEAVE \<and> peer_id s \<noteq> [] \<and>
    ws_open s \<and> reading s"
  let ?s1 = "do_read (handle_leave s)"
  from a have f: "frame_arrives add_peer message s = Inr ?s1"
    by (simp add: frame_arrives_def on_read_def handle_message_def)
  from a have e: "effects ?s1 = effects s @ [RemovePeer (peer_id s), WsClose]"
    by (simp add: do_read_def handle_leave_def close_def)
  have r: "remove_peer_calls (es @ [RemovePeer p, WsClose]) = remove_peer_calls es @ [p]" for es p
    by (induction es rule: remove_peer_calls.induct) simp_all
  from a have c: "\<not> ws_open ?s1"
    by (simp add: do_read_def handle_leave_def close_def)
  from closed_session_ignores_frames [OF c, of add_peer ms]
  obtain s2 where "frames add_peer ms ?s1 = Inr s2" "effects s2 = effects ?s1" "\<not> ws_open s2"
    by blast
  with f e c r show "\<exists>s1. frame_arrives add_peer message s = Inr s1 \<and>
              effects s1 = effects s @ [RemovePeer (peer_id s), WsClose] \<and>
              remove_peer_calls (effects s1) = remove_peer_calls (effects s) @ [peer_id s] \<and>
              \<not> ws_open s1 \<and>
              (\<exists>s2. frames add_peer ms s1 = Inr s2 \<and> effects s2 = effects s1 \<and> \<not> ws_open s2)"
    by (metis (no_types, lifting))
next
  assume "\<not> ws_open c"
  from closed_session_ignores_frames [OF this, of add_peer ms]
  show "\<exists>c'. frames add_peer ms c = Inr c' \<and> effects c' = effects c \<and>
              remove_peer_calls (effects c') = remove_peer_calls (effects c) \<and> \<not> ws_open c'"
    by auto
qed

theorem leave_removes_peer_exactly_once_witness:
  "\<exists>s1. frame_arrives (\<lambda>r d m x. ''p7'') ''{\"type\":\"leave\"}''
           (do_read (new_session_bound ''r1'' ''p7'' False)) = Inr s1 \<and>
        effects s1 = [RemovePeer ''p7'', WsClose] \<and> \<not> ws_open s1 \<and>
        (\<exists>s2. frames (\<lambda>r d m x. ''p7'') [''{\"type\":\"leave\"}''] s1 = Inr s2 \<and>
              effects s2 = [RemovePeer ''p7'', WsClose])"
proof -
  let ?m = "''{\"type\":\"leave\"}''"
  let ?msg = "\<lparr>msg_type = LEAVE, msg_data = ?m, msg_room_id = [], msg_peer_id = []\<rparr>"
  let ?ap = "\<lambda>r d m x. ''p7''"
  let ?s = "do_read (new_session_bound ''r1'' ''p7'' False)"
  have p: "parse_message ?m = Inr ?msg \<and> msg_type ?msg = LEAVE \<and> peer_id ?s \<noteq> [] \<and>
      ws_open ?s \<and> reading ?s"
    by (simp add: parse_message_def contains_def str_find_def do_read_def new_session_bound_def)
  have e: "effects ?s = []"
    by (simp add: do_read_def new_session_bound_def)
  have i: "peer_id ?s = ''p7''"
    by (simp add: do_read_def new_session_bound_def)
  from leave_removes_peer_exactly_once [of ?m ?msg ?s ?ap "[?m]" ?s] p
  obtain s1 s2 where "frame_arrives ?ap ?m ?s = Inr s1"
    "effects s1 = effects ?s @ [RemovePeer (peer_id ?s), WsClose]" "\<not> ws_open s1"
    "frames ?ap [?m] s1 = Inr s2" "effects s2 = effects s1"
    by blast
  with e i show ?thesis by simp
qed

section \<open>The registry\<close>

lemma length_with_session [simp]: "length (with_session a f h) = length h"
  by (simp add: with_session_def)

lemma with_session_other: "b \<noteq> a \<Longrightarrow> with_session a f h ! b = h ! b"
  by (simp add: with_session_def)

lemma length_broadcast_loop [simp]: "length (broadcast_loop reg room message exclude h) = length h"
  by (induction reg room message exclude h rule: broadcast_loop.induct) simp_all

lemma broadcast_loop_counts:
  "b < length h \<Longrightarrow>
   broadcast_loop reg room message exclude h ! b =
     (if room_id (h ! b) = room
      then (h ! b)\<lparr>effects := effects (h ! b) @
             replicate (length (filter (\<lambda>(peer, a). a = b \<and> peer \<noteq> exclude) reg)) (WsWrite message)\<rparr>
      else h ! b)"
proof (induction reg room message exclude h rule: broadcast_loop.induct)
  case (1 room message exclude h)
  then show ?case by simp
next
  case (2 peer a rest room message exclude h)
  let ?h' = "if a < length h \<and> room_id (h ! a) = room \<and> peer \<noteq> exclude
             then with_session a (send message) h else h"
  from "2.prems" have b: "b < length ?h'" by simp
  have room: "room_id (?h' ! b) = room_id (h ! b)"
    using "2.prems" by (cases "b = a") (simp_all add: with_session_def send_def)
  have eff: "?h' ! b =
      (if a = b \<and> room_id (h ! b) = room \<and> peer \<noteq> exclude
       then (h ! b)\<lparr>effects := effects (h ! b) @ [WsWrite message]\<rparr> else h ! b)"
    using "2.prems" by (cases "b = a") (auto simp: with_session_def send_def)
  have "broadcast_loop ((peer, a) # rest) room message exclude h ! b =
        broadcast_loop rest room message exclude ?h' ! b"
    by simp
  also have "\<dots> =
     (if room_id (?h' ! b) = room
      then (?h' ! b)\<lparr>effects := effects (?h' ! b) @
             replicate (length (filter (\<lambda>(peer, a). a = b \<and> peer \<noteq> exclude) rest)) (WsWrite message)\<rparr>
      else ?h' ! b)"
    by (rule "2.IH" [OF b])
  also have "\<dots> =
     (if room_id (h ! b) = room
      then (h ! b)\<lparr>effects := effects (h ! b) @
             replicate (length (filter (\<lambda>(peer, a). a = b \<and> peer \<noteq> exclude) ((peer, a) # rest)))
               (WsWrite message)\<rparr>
      else h ! b)"
    unfolding room eff by (simp add: replicate_append_same)
  finally show ?case .
qed

text \<open>
  C3, as the code has it.  \<open>broadcast_to_room(R, m, E)\<close> calls \<open>send(m)\<close> on a session once
  for every registry entry that points to it under a key other than \<open>E\<close>, provided the
  session's room is \<open>R\<close>; so every session registered in room \<open>R\<close> under a key other than
  \<open>E\<close> gets the message, a session of another room gets nothing, and neither does a session
  whose only key is \<open>E\<close>.  With \<open>E\<close> empty, every session registered in room \<open>R\<close> under a
  non-empty key gets the message.  Registry and heap size stay as they were.
\<close>

theorem broadcast_to_room_delivers:
  assumes "b < length (heap srv)"
  shows "heap (broadcast_to_room room message exclude srv) ! b =
           (if room_id (heap srv ! b) = room
            then (heap srv ! b)\<lparr>effects := effects (heap srv ! b) @
                   replicate (length (filter (\<lambda>(peer, a). a = b \<and> peer \<noteq> exclude) (sessions srv)))
                     (WsWrite message)\<rparr>
            else heap srv ! b) \<and>
         ((peer, b) \<in> set (sessions srv) \<and> peer \<noteq> exclude
          \<longrightarrow> 0 < length (filter (\<lambda>(peer, a). a = b \<and> peer \<noteq> exclude) (sessions srv))) \<and>
         ((peer, b) \<in> set (sessions srv) \<and> peer \<noteq> [] \<and> exclude = [] \<and> room_id (heap srv ! b) = room
          \<longrightarrow> effects (heap (broadcast_to_room room message exclude srv) ! b) \<noteq> effects (heap srv ! b)) \<and>
         sessions (broadcast_to_room room message exclude srv) = sessions srv \<and>
         length (heap (broadcast_to_room room message exclude srv)) = length (heap srv)"
proof -
  let ?n = "length (filter (\<lambda>(peer, a). a = b \<and> peer \<noteq> exclude) (sessions srv))"
  have 1: "heap (broadcast_to_room room message exclude srv) ! b =
           (if room_id (heap srv ! b) = room
            then (heap srv ! b)\<lparr>effects := effects (heap srv ! b) @ replicate ?n (WsWrite message)\<rparr>
            else heap srv ! b)"
    using broadcast_loop_counts [OF assms] by (simp add: broadcast_to_room_def)
  have 2: "0 < ?n" if "(peer, b) \<in> set (sessions srv)" "peer \<noteq> exclude"
  proof -
    from that have "(peer, b) \<in> set (filter (\<lambda>(peer, a). a = b \<and> peer \<noteq> exclude) (sessions srv))"
      by simp
    then show ?thesis by (metis length_pos_if_in_set)
  qed
  have 3: "effects (heap (broadcast_to_room room message exclude srv) ! b) \<noteq> effects (heap srv ! b)"
    if "(peer, b) \<in> set (sessions srv)" "peer \<noteq> []" "exclude = []" "room_id (heap srv ! b) = room"
  proof -
    from that 2 have "0 < ?n" by simp
    then have "replicate ?n (WsWrite message) \<noteq> []" by simp
    with 1 that(4) show ?thesis by simp
  qed
  have 4: "sessions (broadcast_to_room room message exclude srv) = sessions srv"
    "length (heap (broadcast_to_room room message exclude srv)) = length (heap srv)"
    by (simp_all add: broadcast_to_room_def)
  from 1 2 3 4 show ?thesis by blast
qed

theorem broadcast_to_room_delivers_witness:
  "effects (heap (broadcast_to_room ''R'' ''m'' ''p1''
        \<lparr>running = True, acceptor_open = True, ioc_stopped = False, accept_thread_joinable = True,
         sessions = [(''p1'', 0), (''p2'', 1), (''p3'', 2)],
         heap = [new_session_bound ''R'' ''p1'' True, new_session_bound ''Q'' ''p2'' False,
                 new_session_bound ''R'' ''p3'' False],
         teardown = []\<rparr>) ! 2) = [WsWrite ''m''] \<and>
   effects (heap (broadcast_to_room ''R'' ''m'' ''p1''
        \<lparr>running = True, acceptor_open = True, ioc_stopped = False, accept_thread_joinable = True,
         sessions = [(''p1'', 0), (''p2'', 1), (''p3'', 2)],
         heap = [new_session_bound ''R'' ''p1'' True, new_session_bound ''Q'' ''p2'' False,
                 new_session_bound ''R'' ''p3'' False],
         teardown = []\<rparr>) ! 1) = [] \<and>
   effects (heap (broadcast_to_room ''R'' ''m'' ''p1''
        \<lparr>running = True, acceptor_open = True, ioc_stopped = False, accept_thread_joinable = True,
         sessions = [(''p1'', 0), (''p2'', 1), (''p3'', 2)],
         heap = [new_session_bound ''R'' ''p1'' True, new_session_bound ''Q'' ''p2'' False,
                 new_session_bound ''R'' ''p3'' False],
         teardown = []\<rparr>) ! 0) = []"
proof -
  let ?srv = "\<lparr>running = True, acceptor_open = True, ioc_stopped = False, accept_thread_joinable = True,
         sessions = [(''p1'', 0), (''p2'', 1), (''p3'', 2)],
         heap = [new_session_bound ''R'' ''p1'' True, new_session_bound ''Q'' ''p2'' False,
                 new_session_bound ''R'' ''p3'' False],
         teardown = []\<rparr>"
  let ?h = "heap (broadcast_to_room ''R'' ''m'' ''p1'' ?srv)"
  have l: "(0::nat) < length (heap ?srv)" "(1::nat) < length (heap ?srv)" "(2::nat) < length (heap ?srv)"
    by simp_all
  have 0: "effects (?h ! 0) = []"
    using broadcast_to_room_delivers [OF l(1), of "''R''" "''m''" "''p1''" "[]"]
    by (simp add: new_session_bound_def)
  have 1: "effects (?h ! 1) = []"
    using broadcast_to_room_delivers [OF l(2), of "''R''" "''m''" "''p1''" "[]"]
    by (simp add: new_session_bound_def)
  have 2: "effects (?h ! 2) = [WsWrite ''m'']"
    using broadcast_to_room_delivers [OF l(3), of "''R''" "''m''" "''p1''" "[]"]
    by (simp add: new_session_bound_def)
  from 0 1 2 show ?thesis by blast
qed

text \<open>
  C3 as stated fails for the last clause: a session handed over under the empty peer
  identifier is registered in room \<open>R\<close>, and a broadcast to \<open>R\<close> that excludes nobody
  (\<open>E\<close> empty) does not reach it.
\<close>

theorem broadcast_empty_exclude_counterexample:
  "sessions (accept_upgraded_connection True ''R'' [] False
      \<lparr>running = True, acceptor_open = True, ioc_stopped = False, accept_thread_joinable = True,
       sessions = [], heap = [], teardown = []\<rparr>) = [([], 0)] \<and>
   room_id (heap (accept_upgraded_connection True ''R'' [] False
      \<lparr>running = True, acceptor_open = True, ioc_stopped = False, accept_thread_joinable = True,
       sessions = [], heap = [], teardown = []\<rparr>) ! 0) = ''R'' \<and>
   effects (heap (broadcast_to_room ''R'' ''m'' []
      (accept_upgraded_connection True ''R'' [] False
         \<lparr>running = True, acceptor_open = True, ioc_stopped = False, accept_thread_joinable = True,
          sessions = [], heap = [], teardown = []\<rparr>)) ! 0) = []"
  by (simp add: accept_upgraded_connection_def register_session_def with_session_def
      run_already_upgraded_def do_read_def new_session_bound_def broadcast_to_room_def Let_def)

section \<open>Teardown\<close>

lemma close_all_fields:
  "teardown (close_all reg srv) = teardown srv @ map (\<lambda>(peer, a). CloseSession a) reg"
  "sessions (close_all reg srv) = sessions srv"
  "running (close_all reg srv) = running srv"
  "acceptor_open (close_all reg srv) = acceptor_open srv"
  "ioc_stopped (close_all reg srv) = ioc_stopped srv"
  "accept_thread_joinable (close_all reg srv) = accept_thread_joinable srv"
  "length (heap (close_all reg srv)) = length (heap srv)"
  by (induction reg srv rule: close_all.induct) simp_all

lemma close_all_stays_closed:
  "b < length (heap srv) \<Longrightarrow> \<not> ws_open (heap srv ! b) \<Longrightarrow> \<not> ws_open (heap (close_all reg srv) ! b)"
proof (induction reg srv rule: close_all.induct)
  case (1 srv)
  then show ?case by simp
next
  case (2 peer a rest srv)
  let ?srv' = "srv\<lparr>heap := with_session a close (heap srv), teardown := teardown srv @ [CloseSession a]\<rparr>"
  from "2.prems" have "b < length (heap ?srv')" and "\<not> ws_open (heap ?srv' ! b)"
    by (cases "b = a"; simp add: with_session_def close_def)+
  from "2.IH" [OF this] show ?case by simp
qed

lemma close_all_closes:
  "(peer, b) \<in> set reg \<Longrightarrow> b < length (heap srv) \<Longrightarrow> \<not> ws_open (heap (close_all reg srv) ! b)"
proof (induction reg srv rule: close_all.induct)
  case (1 srv)
  then show ?case by simp
next
  case (2 p a rest srv)
  let ?srv' = "srv\<lparr>heap := with_session a close (heap srv), teardown := teardown srv @ [CloseSession a]\<rparr>"
  from "2.prems" have len: "b < length (heap ?srv')" by simp
  show ?case
  proof (cases "(peer, b) = (p, a)")
    case True
    with "2.prems" have "\<not> ws_open (heap ?srv' ! b)"
      by (simp add: with_session_def close_def)
    from close_all_stays_closed [OF len this] show ?thesis by simp
  next
    case False
    with "2.prems" have "(peer, b) \<in> set rest" by auto
    from "2.IH" [OF this len] show ?thesis by simp
  qed
qed

lemma stop_unfold:
  "running srv \<Longrightarrow>
   stop srv =
     (close_all (sessions srv) (srv\<lparr>running := False, teardown := teardown srv @ [ClearRunning]\<rparr>))
       \<lparr>sessions := [], acceptor_open := False, ioc_stopped := True, accept_thread_joinable := False,
        teardown :=
          teardown srv @ [ClearRunning] @ map (\<lambda>(peer, a). CloseSession a) (sessions srv) @
          [ClearSessions] @ (if acceptor_open srv then [CloseAcceptor] else []) @ [StopIoContext] @
          (if accept_thread_joinable srv then [JoinAcceptThread] else [])\<rparr>"
  by (simp add: stop_def Let_def close_all_fields)

text \<open>
  C8, as the code has it.  \<open>stop\<close> on a running server clears the running flag, then closes
  every registered session and empties the registry, then closes the acceptor (if open) and
  stops the io context, then joins the accept thread (if joinable), in this order.  Afterwards
  the server is not running and the registry is empty; a second \<open>stop\<close>, and
  \<open>broadcast_to_room\<close>, \<open>send_to_peer\<close> and \<open>unregister_session\<close> on the emptied
  registry, change nothing.  \<open>register_session\<close> and \<open>accept_upgraded_connection\<close> do not
  look at the running flag: after \<open>stop\<close> they insert as before.
\<close>

theorem stop_teardown_order:
  assumes "running srv"
  shows "teardown (stop srv) =
           teardown srv @ [ClearRunning] @ map (\<lambda>(peer, a). CloseSession a) (sessions srv) @
           [ClearSessions] @ (if acceptor_open srv then [CloseAcceptor] else []) @ [StopIoContext] @
           (if accept_thread_joinable srv then [JoinAcceptThread] else []) \<and>
         \<not> running (stop srv) \<and> sessions (stop srv) = [] \<and> \<not> acceptor_open (stop srv) \<and>
         ioc_stopped (stop srv) \<and> \<not> accept_thread_joinable (stop srv) \<and>
         ((peer, a) \<in> set (sessions srv) \<and> a < length (heap srv)
          \<longrightarrow> \<not> ws_open (heap (stop srv) ! a)) \<and>
         stop (stop srv) = stop srv \<and>
         broadcast_to_room room message exclude (stop srv) = stop srv \<and>
         send_to_peer p message (stop srv) = stop srv \<and>
         unregister_session p (stop srv) = stop srv \<and>
         sessions (register_session p b (stop srv)) = [(p, b)] \<and>
         sessions (accept_upgraded_connection True room p host (stop srv)) = [(p, length (heap srv))]"
proof -
  note u = stop_unfold [OF assms]
  have 1: "teardown (stop srv) =
           teardown srv @ [ClearRunning] @ map (\<lambda>(peer, a). CloseSession a) (sessions srv) @
           [ClearSessions] @ (if acceptor_open srv then [CloseAcceptor] else []) @ [StopIoContext] @
           (if accept_thread_joinable srv then [JoinAcceptThread] else [])"
    by (simp add: u)
  have 2: "\<not> running (stop srv)" "sessions (stop srv) = []" "\<not> acceptor_open (stop srv)"
    "ioc_stopped (stop srv)" "\<not> accept_thread_joinable (stop srv)"
    by (simp_all add: u close_all_fields)
  have 3: "\<not> ws_open (heap (stop srv) ! a)" if "(peer, a) \<in> set (sessions srv)" "a < length (heap srv)"
    using close_all_closes [OF that(1),
        of "srv\<lparr>running := False, teardown := teardown srv @ [ClearRunning]\<rparr>"] that(2)
    by (simp add: u)
  have 4: "stop (stop srv) = stop srv"
    using 2(1) by (simp add: stop_def [of "stop srv"])
  have 5: "broadcast_to_room room message exclude (stop srv) = stop srv"
    "send_to_peer p message (stop srv) = stop srv"
    "unregister_session p (stop srv) = stop srv"
    using 2(2) by (simp_all add: broadcast_to_room_def send_to_peer_def unregister_session_def map_erase_def)
  have 6: "sessions (register_session p b (stop srv)) = [(p, b)]"
    using 2(2) by (simp add: register_session_def)
  have 7: "sessions (accept_upgraded_connection True room p host (stop srv)) = [(p, length (heap srv))]"
    using 2(2) by (simp add: accept_upgraded_connection_def register_session_def Let_def u close_all_fields)
  from 1 2 3 4 5 6 7 show ?thesis by blast
qed

theorem stop_teardown_order_witness:
  "teardown (stop
      \<lparr>running = True, acceptor_open = True, ioc_stopped = False, accept_thread_joinable = True,
       sessions = [(''p1'', 0), (''p2'', 1)],
       heap = [do_read (new_session_bound ''r1'' ''p1'' True),
               do_read (new_session_bound ''r1'' ''p2'' False)],
       teardown = []\<rparr>) =
     [ClearRunning, CloseSession 0, CloseSession 1, ClearSessions, CloseAcceptor, StopIoContext,
      JoinAcceptThread] \<and>
   \<not> ws_open (heap (stop
      \<lparr>running = True, acceptor_open = True, ioc_stopped = False, accept_thread_joinable = True,
       sessions = [(''p1'', 0), (''p2'', 1)],
       heap = [do_read (new_session_bound ''r1'' ''p1'' True),
               do_read (new_session_bound ''r1'' ''p2'' False)],
       teardown = []\<rparr>) ! 1)"
proof -
  let ?srv = "\<lparr>running = True, acceptor_open = True, ioc_stopped = False, accept_thread_joinable = True,
       sessions = [(''p1'', 0), (''p2'', 1)],
       heap = [do_read (new_session_bound ''r1'' ''p1'' True),
               do_read (new_session_bound ''r1'' ''p2'' False)],
       teardown = []\<rparr>"
  have r: "running ?srv" by simp
  have m: "(''p2'', 1) \<in> set (sessions ?srv) \<and> 1 < length (heap ?srv)" by simp
  from stop_teardown_order [OF r, where peer = "''p2''" and a = 1 and room = "[]" and message = "[]"
      and exclude = "[]" and p = "[]" and b = 0 and host = False] m
  show ?thesis by simp
qed

text \<open>
  C8 as stated fails.  On a running server with one registered session, the session is closed
  and the registry emptied before the acceptor is closed; and after \<open>stop\<close> a handoff still
  registers a new session, to which a later broadcast is delivered.
\<close>

theorem stop_then_register_counterexample:
  "teardown (stop
      \<lparr>running = True, acceptor_open = True, ioc_stopped = False, accept_thread_joinable = True,
       sessions = [(''p1'', 0)], heap = [do_read (new_session_bound ''r1'' ''p1'' True)],
       teardown = []\<rparr>) =
     [ClearRunning, CloseSession 0, ClearSessions, CloseAcceptor, StopIoContext, JoinAcceptThread] \<and>
   sessions (accept_upgraded_connection True ''r1'' ''p2'' False (stop
      \<lparr>running = True, acceptor_open = True, ioc_stopped = False, accept_thread_joinable = True,
       sessions = [(''p1'', 0)], heap = [do_read (new_session_bound ''r1'' ''p1'' True)],
       teardown = []\<rparr>)) = [(''p2'', 1)] \<and>
   effects (heap (broadcast_to_room ''r1'' ''m'' [] (accept_upgraded_connection True ''r1'' ''p2'' False (stop
      \<lparr>running = True, acceptor_open = True, ioc_stopped = False, accept_thread_joinable = True,
       sessions = [(''p1'', 0)], heap = [do_read (new_session_bound ''r1'' ''p1'' True)],
       teardown = []\<rparr>))) ! 1) = [WsWrite ''m'']"
  by (simp add: stop_def Let_def with_session_def close_def do_read_def new_session_bound_def
      accept_upgraded_connection_def register_session_def run_already_upgraded_def
      broadcast_to_room_def send_def)

section \<open>Where registry entries come from\<close>

lemma set_map_assign: "set (map_assign k v m) \<subseteq> insert (k, v) (set m)"
  by (induction m) (auto split: if_splits)

lemma frame_arrives_ok: "\<exists>s'. frame_arrives add_peer message s = Inr s'"
proof -
  obtain msg where "parse_message message = Inr msg"
    using parse_message_ok by blast
  then have "\<exists>s'. handle_message add_peer message s = Inr s'"
    by (cases "msg_type msg") (simp_all add: handle_message_def)
  then show ?thesis
    by (auto simp: frame_arrives_def on_read_def)
qed

lemma step_ok: "\<exists>srv'. step add_peer e srv = Inr srv'"
proof (cases e)
  case (Frame a message)
  obtain s' where "frame_arrives add_peer message (heap srv ! a) = Inr s'"
    using frame_arrives_ok by blast
  with Frame show ?thesis by (simp add: session_frame_def)
qed simp_all

lemma run_ok: "\<exists>srv'. run add_peer evs srv = Inr srv'"
proof (induction evs arbitrary: srv)
  case Nil
  then show ?case by simp
next
  case (Cons e evs)
  obtain srv1 where "step add_peer e srv = Inr srv1"
    using step_ok by blast
  with Cons.IH [of srv1] show ?case by simp
qed

lemma step_heap_grows:
  "step add_peer e srv = Inr srv' \<Longrightarrow> length (heap srv) \<le> length (heap srv')"
proof (cases e)
  case (Frame a message)
  assume "step add_peer e srv = Inr srv'"
  with Frame show ?thesis
    by (auto simp: session_frame_def split: if_splits sum.splits)
next
  case Stop
  assume "step add_peer e srv = Inr srv'"
  with Stop show ?thesis
    by (cases "running srv") (auto simp: stop_unfold close_all_fields, simp add: stop_def)
qed (auto simp: on_accept_def accept_upgraded_connection_def register_session_def Let_def
      broadcast_to_room_def send_to_peer_def unregister_session_def split: option.splits)

lemma step_entries:
  assumes "step add_peer e srv = Inr srv'" and "(k, b) \<in> set (sessions srv')"
  shows "(k, b) \<in> set (sessions srv) \<or>
         (\<exists>room host. e = Upgraded True room k host \<and> b = length (heap srv))"
proof (cases e)
  case (Accept ec)
  with assms show ?thesis by (auto simp: on_accept_def split: if_splits)
next
  case (Handshake a ec)
  with assms show ?thesis by auto
next
  case (Upgraded ok room peer host)
  show ?thesis
  proof (cases ok)
    case True
    with Upgraded assms have "(k, b) \<in> set (map_assign peer (length (heap srv)) (sessions srv))"
      by (auto simp: accept_upgraded_connection_def register_session_def Let_def)
    with set_map_assign have "(k, b) = (peer, length (heap srv)) \<or> (k, b) \<in> set (sessions srv)"
      by blast
    with Upgraded True show ?thesis by auto
  next
    case False
    with Upgraded assms show ?thesis by (simp add: accept_upgraded_connection_def)
  qed
next
  case (Frame a message)
  with assms show ?thesis
    by (auto simp: session_frame_def split: if_splits sum.splits)
next
  case (Broadcast room message exclude)
  with assms show ?thesis by (auto simp: broadcast_to_room_def)
next
  case (SendToPeer peer message)
  with assms show ?thesis by (auto simp: send_to_peer_def split: option.splits)
next
  case (Unregister peer)
  with assms show ?thesis by (auto simp: unregister_session_def map_erase_def)
next
  case Stop
  with assms show ?thesis
    by (cases "running srv") (auto simp: stop_unfold, simp add: stop_def)
qed

lemma run_entries:
  "run add_peer evs srv = Inr srv' \<Longrightarrow> (k, b) \<in> set (sessions srv') \<Longrightarrow>
   length (heap srv) \<le> length (heap srv') \<and>
   ((k, b) \<in> set (sessions srv) \<or>
    (\<exists>room host. Upgraded True room k host \<in> set evs) \<and> length (heap srv) \<le> b)"
proof (induction evs arbitrary: srv)
  case Nil
  then show ?case by simp
next
  case (Cons e evs)
  from Cons.prems(1) obtain srv1 where s: "step add_peer e srv = Inr srv1"
    and r: "run add_peer evs srv1 = Inr srv'"
    by (auto split: sum.splits)
  from step_heap_grows [OF s] have g: "length (heap srv) \<le> length (heap srv1)" .
  from Cons.IH [OF r Cons.prems(2)] have ih: "length (heap srv1) \<le> length (heap srv')"
    "(k, b) \<in> set (sessions srv1) \<or>
      (\<exists>room host. Upgraded True room k host \<in> set evs) \<and> length (heap srv1) \<le> b"
    by blast+
  from ih(2) show ?case
  proof
    assume "(k, b) \<in> set (sessions srv1)"
    from step_entries [OF s this] g ih(1) show ?thesis by auto
  next
    assume "(\<exists>room host. Upgraded True room k host \<in> set evs) \<and> length (heap srv1) \<le> b"
    with g ih(1) show ?thesis by auto
  qed
qed

lemma run_heap_grows:
  "run add_peer evs srv = Inr srv' \<Longrightarrow> length (heap srv) \<le> length (heap srv')"
proof (induction evs arbitrary: srv)
  case Nil
  then show ?case by simp
next
  case (Cons e evs)
  from Cons.prems obtain srv1 where s: "step add_peer e srv = Inr srv1"
    and r: "run add_peer evs srv1 = Inr srv'"
    by (auto split: sum.splits)
  from step_heap_grows [OF s] Cons.IH [OF r] show ?case by simp
qed

lemma broadcast_loop_unregistered:
  "b \<notin> snd ` set reg \<Longrightarrow> broadcast_loop reg room message exclude h ! b = h ! b"
  by (induction reg room message exclude h rule: broadcast_loop.induct)
     (auto simp: with_session_other)

lemma send_to_peer_unregistered:
  "b \<notin> snd ` set (sessions srv) \<Longrightarrow> heap (send_to_peer p message srv) ! b = heap srv ! b"
proof (cases "map_of (sessions srv) p")
  case None
  then show ?thesis by (simp add: send_to_peer_def)
next
  case (Some a)
  assume n: "b \<notin> snd ` set (sessions srv)"
  from Some have "(p, a) \<in> set (sessions srv)" by (rule map_of_SomeD)
  with n have "b \<noteq> a" by force
  with Some show ?thesis by (simp add: send_to_peer_def with_session_other)
qed

text \<open>
  C10.  In the sources \<open>register_session\<close> is called from \<open>accept_upgraded_connection\<close>
  only, so every entry of the registry was there at the start or comes from a handoff that
  went through.  A session constructed by \<open>on_accept\<close> is not registered at construction,
  and whatever happens afterwards (its handshake, frames it reads, a JOIN among them,
  handoffs, broadcasts, unregistrations, \<open>stop\<close>), no registry entry ever points to it;
  hence \<open>broadcast_to_room\<close> and \<open>send_to_peer\<close> leave it untouched.
\<close>

theorem native_session_never_registered:
  assumes "registry_ok srv"
  shows "\<exists>srv'. run add_peer evs (on_accept False srv) = Inr srv' \<and>
           heap (on_accept False srv) ! length (heap srv) = new_session \<and>
           sessions (on_accept False srv) = sessions srv \<and>
           length (heap srv) < length (heap srv') \<and>
           length (heap srv) \<notin> snd ` set (sessions srv') \<and>
           heap (broadcast_to_room room message exclude srv') ! length (heap srv) =
             heap srv' ! length (heap srv) \<and>
           heap (send_to_peer p message srv') ! length (heap srv) = heap srv' ! length (heap srv) \<and>
           (\<forall>(k, b) \<in> set (sessions srv').
              (k, b) \<in> set (sessions srv) \<or> (\<exists>r h. Upgraded True r k h \<in> set evs))"
proof -
  let ?a = "length (heap srv)"
  let ?srv1 = "on_accept False srv"
  obtain srv' where r: "run add_peer evs ?srv1 = Inr srv'"
    using run_ok by blast
  have 1: "heap ?srv1 ! ?a = new_session" "sessions ?srv1 = sessions srv"
    and len1: "length (heap ?srv1) = Suc ?a"
    by (simp_all add: on_accept_def)
  from run_heap_grows [OF r] len1 have 2: "?a < length (heap srv')" by simp
  have e: "(k, b) \<in> set (sessions srv) \<or> (\<exists>r h. Upgraded True r k h \<in> set evs) \<and> Suc ?a \<le> b"
    if "(k, b) \<in> set (sessions srv')" for k b
    using run_entries [OF r that] 1(2) len1 by simp
  have old: "b < ?a" if "(k, b) \<in> set (sessions srv)" for k b
    using assms that by (auto simp: registry_ok_def list_all_iff)
  have 3: "?a \<notin> snd ` set (sessions srv')"
  proof
    assume "?a \<in> snd ` set (sessions srv')"
    then obtain k where "(k, ?a) \<in> set (sessions srv')" by auto
    from e [OF this] old [of k ?a] show False by auto
  qed
  have 4: "heap (broadcast_to_room room message exclude srv') ! ?a = heap srv' ! ?a"
    using broadcast_loop_unregistered [OF 3] by (simp add: broadcast_to_room_def)
  have 5: "heap (send_to_peer p message srv') ! ?a = heap srv' ! ?a"
    by (rule send_to_peer_unregistered [OF 3])
  have 6: "\<forall>(k, b) \<in> set (sessions srv').
              (k, b) \<in> set (sessions srv) \<or> (\<exists>r h. Upgraded True r k h \<in> set evs)"
    using e by auto
  from r 1 2 3 4 5 6 show ?thesis by blast
qed

theorem native_session_never_registered_witness:
  "\<exists>srv'. run (\<lambda>r d m x. ''p7'')
            [Handshake 0 False, Frame 0 ''{\"type\":\"join\",\"room_id\":\"r1\"}'',
             Upgraded True ''r1'' ''r1_viewer_1'' False, Broadcast ''r1'' ''hello'' [],
             SendToPeer ''p7'' ''hello'']
            (on_accept False
               \<lparr>running = True, acceptor_open = True, ioc_stopped = False,
                accept_thread_joinable = True, sessions = [], heap = [], teardown = []\<rparr>) = Inr srv' \<and>
      sessions srv' = [(''r1_viewer_1'', 1)] \<and>
      room_id (heap srv' ! 0) = ''r1'' \<and> peer_id (heap srv' ! 0) = ''p7'' \<and>
      effects (heap srv' ! 0) =
        [AddPeer ''r1'' ''{\"type\":\"join\",\"room_id\":\"r1\"}'' ''{\"type\":\"join\",\"room_id\":\"r1\"}'' VIEWER,
         WsWrite ''{\"type\":\"join\",\"data\":{\"peer_id\":\"p7\",\"room_id\":\"r1\"}}''] \<and>
      effects (heap srv' ! 1) = [WsWrite ''hello''] \<and>
      0 \<notin> snd ` set (sessions srv')"
proof -
  let ?ap = "\<lambda>r d m x. ''p7''"
  let ?evs = "[Handshake 0 False, Frame 0 ''{\"type\":\"join\",\"room_id\":\"r1\"}'',
             Upgraded True ''r1'' ''r1_viewer_1'' False, Broadcast ''r1'' ''hello'' [],
             SendToPeer ''p7'' ''hello'']"
  let ?srv = "\<lparr>running = True, acceptor_open = True, ioc_stopped = False,
                accept_thread_joinable = True, sessions = [], heap = [], teardown = []\<rparr>"
  have ok: "registry_ok ?srv" by (simp add: registry_ok_def)
  from native_session_never_registered [OF ok, of ?ap ?evs "[]" "[]" "[]" "[]"]
  obtain srv' where r: "run ?ap ?evs (on_accept False ?srv) = Inr srv'"
    and n: "length (heap ?srv) \<notin> snd ` set (sessions srv')"
    by blast
  from r have x: "srv' =
      \<lparr>running = True, acceptor_open = True, ioc_stopped = False, accept_thread_joinable = True,
       sessions = [(''r1_viewer_1'', 1)],
       heap = [\<lparr>room_id = ''r1'', peer_id = ''p7'', is_host = False, ws_open = True, reading = True,
                effects = [AddPeer ''r1'' ''{\"type\":\"join\",\"room_id\":\"r1\"}''
                             ''{\"type\":\"join\",\"room_id\":\"r1\"}'' VIEWER,
                           WsWrite ''{\"type\":\"join\",\"data\":{\"peer_id\":\"p7\",\"room_id\":\"r1\"}}'']\<rparr>,
               \<lparr>room_id = ''r1'', peer_id = ''r1_viewer_1'', is_host = False, ws_open = True,
                reading = True, effects = [WsWrite ''hello'']\<rparr>],
       teardown = []\<rparr>"
    by (simp add: on_accept_def new_session_def with_session_def on_handshake_def do_read_def
        session_frame_def frame_arrives_def on_read_def handle_message_def parse_message_def
        contains_def str_find_def extract_room_id_def substr_def handle_join_def Let_def send_def
        build_message_def type_name_def accept_upgraded_connection_def register_session_def
        new_session_bound_def run_already_upgraded_def broadcast_to_room_def send_to_peer_def)
  from r n show ?thesis unfolding x by simp
qed

section \<open>Detecting an upgrade request\<close>

lemma tolower_examples:
  "map tolower ''WebSocket'' = ''websocket''" "map tolower ''h2c, WEBSOCKET'' = ''h2c, websocket''"
  by (simp_all add: tolower_def less_eq_char_def char_of_eq_iff)

lemma contains_lower_iff:
  "contains (map tolower u) w \<longleftrightarrow> (\<exists>pre x post. u = pre @ x @ post \<and> map tolower x = w)"
proof
  assume "contains (map tolower u) w"
  then obtain pre post where "map tolower u = pre @ w @ post"
    unfolding contains_iff by blast
  with map_eq_append_conv [of tolower u pre "w @ post"]
  obtain p r where 1: "u = p @ r" and 2: "w @ post = map tolower r"
    by auto
  from 2 append_eq_map_conv [of w post tolower r]
  obtain x q where "r = x @ q" "w = map tolower x"
    by auto
  with 1 have "u = p @ x @ q \<and> map tolower x = w" by simp
  then show "\<exists>pre x post. u = pre @ x @ post \<and> map tolower x = w" by blast
next
  assume "\<exists>pre x post. u = pre @ x @ post \<and> map tolower x = w"
  then obtain pre x post where "u = pre @ x @ post" "map tolower x = w" by blast
  then have "map tolower u = map tolower pre @ w @ map tolower post" by simp
  then show "contains (map tolower u) w" unfolding contains_iff by blast
qed

text \<open>
  C9.  \<open>is_websocket_upgrade\<close> is true exactly when the header map has an \<open>Upgrade\<close>
  entry whose value contains \<open>websocket\<close> in any mixture of upper and lower case, and
  has \<open>Connection\<close> and \<open>Sec-WebSocket-Key\<close> entries (the three names are looked up as
  written).  If one of the three entries is missing, the result is false, and
  \<open>handle_client\<close> hands the request to the route table.
\<close>

theorem is_websocket_upgrade_iff:
  "(is_websocket_upgrade req \<longleftrightarrow>
      (\<exists>u. req_headers req ''Upgrade'' = Some u \<and>
           (\<exists>pre x post. u = pre @ x @ post \<and> map tolower x = ''websocket'')) \<and>
      req_headers req ''Connection'' \<noteq> None \<and> req_headers req ''Sec-WebSocket-Key'' \<noteq> None) \<and>
   (req_headers req ''Upgrade'' = None \<or> req_headers req ''Connection'' = None \<or>
    req_headers req ''Sec-WebSocket-Key'' = None
    \<longrightarrow> \<not> is_websocket_upgrade req \<and> handle_client env ws req = (OrdinaryRouting, ws))"
proof -
  have 1: "is_websocket_upgrade req \<longleftrightarrow>
      (\<exists>u. req_headers req ''Upgrade'' = Some u \<and>
           (\<exists>pre x post. u = pre @ x @ post \<and> map tolower x = ''websocket'')) \<and>
      req_headers req ''Connection'' \<noteq> None \<and> req_headers req ''Sec-WebSocket-Key'' \<noteq> None"
  proof -
    define P where "P u \<longleftrightarrow> (\<exists>pre x post. u = pre @ x @ post \<and> map tolower x = ''websocket'')" for u
    have c: "contains (map tolower u) ''websocket'' = P u" for u
      unfolding P_def by (rule contains_lower_iff)
    have "is_websocket_upgrade req \<longleftrightarrow>
      (\<exists>u. req_headers req ''Upgrade'' = Some u \<and> P u) \<and>
      req_headers req ''Connection'' \<noteq> None \<and> req_headers req ''Sec-WebSocket-Key'' \<noteq> None"
      by (cases "req_headers req ''Upgrade''") (auto simp: is_websocket_upgrade_def c)
    then show ?thesis unfolding P_def .
  qed
  have 2: "\<not> is_websocket_upgrade req \<and> handle_client env ws req = (OrdinaryRouting, ws)"
    if "req_headers req ''Upgrade'' = None \<or> req_headers req ''Connection'' = None \<or>
        req_headers req ''Sec-WebSocket-Key'' = None"
  proof -
    from that have "\<not> is_websocket_upgrade req"
      by (auto simp: is_websocket_upgrade_def split: option.splits)
    then show ?thesis by (simp add: handle_client_def)
  qed
  from 1 2 show ?thesis by blast
qed

theorem is_websocket_upgrade_iff_witness:
  "is_websocket_upgrade
     \<lparr>req_path = ''/room/abc/host'',
      req_headers = [''Upgrade'' \<mapsto> ''WebSocket'', ''Connection'' \<mapsto> ''Upgrade'',
                     ''Sec-WebSocket-Key'' \<mapsto> ''dGhlIHNhbXBsZSBub25jZQ=='']\<rparr> \<and>
   \<not> is_websocket_upgrade
     \<lparr>req_path = ''/room/abc/host'',
      req_headers = [''Upgrade'' \<mapsto> ''WebSocket'', ''Connection'' \<mapsto> ''Upgrade'']\<rparr> \<and>
   handle_client \<lparr>write_ok = True, now = 1, assign_ok = True\<rparr> None
     \<lparr>req_path = ''/room/abc/host'',
      req_headers = [''Upgrade'' \<mapsto> ''WebSocket'', ''Connection'' \<mapsto> ''Upgrade'']\<rparr> =
   (OrdinaryRouting, None)"
proof -
  let ?good = "\<lparr>req_path = ''/room/abc/host'',
      req_headers = [''Upgrade'' \<mapsto> ''WebSocket'', ''Connection'' \<mapsto> ''Upgrade'',
                     ''Sec-WebSocket-Key'' \<mapsto> ''dGhlIHNhbXBsZSBub25jZQ=='']\<rparr>"
  let ?bad = "\<lparr>req_path = ''/room/abc/host'',
      req_headers = [''Upgrade'' \<mapsto> ''WebSocket'', ''Connection'' \<mapsto> ''Upgrade'']\<rparr>"
  let ?env = "\<lparr>write_ok = True, now = 1, assign_ok = True\<rparr>"
  have u: "req_headers ?good ''Upgrade'' = Some ''WebSocket''" by simp
  have c: "''WebSocket'' = [] @ ''WebSocket'' @ []" by simp
  have l: "map tolower ''WebSocket'' = ''websocket''"
    by (simp add: tolower_def less_eq_char_def char_of_eq_iff)
  have k: "req_headers ?good ''Connection'' \<noteq> None" "req_headers ?good ''Sec-WebSocket-Key'' \<noteq> None"
    by simp_all
  have g: "(\<exists>u. req_headers ?good ''Upgrade'' = Some u \<and>
           (\<exists>pre x post. u = pre @ x @ post \<and> map tolower x = ''websocket'')) \<and>
      req_headers ?good ''Connection'' \<noteq> None \<and> req_headers ?good ''Sec-WebSocket-Key'' \<noteq> None"
  proof (intro conjI)
    have e: "\<exists>pre x post. ''WebSocket'' = pre @ x @ post \<and> map tolower x = ''websocket''"
    proof (intro exI conjI)
      show "''WebSocket'' = [] @ ''WebSocket'' @ []" by (rule c)
      show "map tolower ''WebSocket'' = ''websocket''" by (rule l)
    qed
    show "\<exists>u. req_headers ?good ''Upgrade'' = Some u \<and>
           (\<exists>pre x post. u = pre @ x @ post \<and> map tolower x = ''websocket'')"
    proof (rule exI [of _ "''WebSocket''"], rule conjI)
      show "req_headers ?good ''Upgrade'' = Some ''WebSocket''" by (rule u)
      show "\<exists>pre x post. ''WebSocket'' = pre @ x @ post \<and> map tolower x = ''websocket''"
        by (rule e)
    qed
  qed (rule k)+
  have b: "req_headers ?bad ''Upgrade'' = None \<or> req_headers ?bad ''Connection'' = None \<or>
    req_headers ?bad ''Sec-WebSocket-Key'' = None"
    by simp
  have 1: "is_websocket_upgrade ?good"
    by (rule iffD2 [OF conjunct1 [OF is_websocket_upgrade_iff [of ?good ?env None]] g])
  have 2: "\<not> is_websocket_upgrade ?bad \<and> handle_client ?env None ?bad = (OrdinaryRouting, None)"
    by (rule mp [OF conjunct2 [OF is_websocket_upgrade_iff [of ?bad ?env None]] b])
  show ?thesis by (rule conjI [OF 1 2])
qed

section \<open>The path of an upgrade request\<close>

lemma parse_upgrade_path_ok: "\<exists>r. parse_upgrade_path p = Inr r"
proof (cases "str_find p ''/room/'' 0")
  case None
  then show ?thesis by (simp add: parse_upgrade_path_def)
next
  case (Some room_pos)
  note room = Some
  from str_find_Some(2) [OF Some] have le: "room_pos + 6 \<le> length p" by simp
  show ?thesis
  proof (cases "str_find p ''/'' (room_pos + 6)")
    case None
    with room show ?thesis by (simp add: parse_upgrade_path_def)
  next
    case (Some id_end)
    from str_find_Some(2) [OF Some] have "id_end + 1 \<le> length p" by simp
    with room Some le show ?thesis
      by (simp add: parse_upgrade_path_def substr_def substr_from_def Let_def)
  qed
qed

lemma parse_upgrade_path_eq:
  assumes "str_find p ''/room/'' 0 = Some a" and "str_find p ''/'' (a + 6) = Some e"
    and "substr p (a + 6) (e - (a + 6)) = Inr room" and "substr_from p (e + 1) = Inr role"
  shows "parse_upgrade_path p =
           Inr (if role = ''host'' then Parsed room True
                else if role = ''viewer'' then Parsed room False else InvalidRole)"
  using assms by (simp add: parse_upgrade_path_def Let_def)

lemma parse_upgrade_path_room:
  assumes "CHR ''/'' \<notin> set rid"
  shows "parse_upgrade_path (''/room/'' @ rid @ ''/'' @ role) =
           Inr (if role = ''host'' then Parsed rid True
                else if role = ''viewer'' then Parsed rid False else InvalidRole)"
proof -
  let ?p = "''/room/'' @ rid @ ''/'' @ role"
  have 1: "str_find ?p ''/room/'' 0 = Some 0"
    by (simp add: str_find_def)
  have "find_scan ''/'' (rid @ ''/'' @ role) 6 = Some (6 + length rid)"
    using find_scan_skip [of "''/''" rid role 6] assms by simp
  then have 2: "str_find ?p ''/'' 6 = Some (6 + length rid)"
    by (simp add: str_find_def)
  have 3: "substr ?p 6 (length rid) = Inr rid"
    by (simp add: substr_def)
  have 4: "substr_from ?p (6 + length rid + 1) = Inr role"
  proof -
    have a: "drop (length (''/room/'' @ rid @ ''/'')) ((''/room/'' @ rid @ ''/'') @ role) = role"
      by (metis append_eq_conv_conj)
    have b: "length (''/room/'' @ rid @ ''/'') = 6 + length rid + 1" by simp
    have c: "(''/room/'' @ rid @ ''/'') @ role = ?p" by simp
    from a have "drop (6 + length rid + 1) ?p = role" unfolding b c .
    moreover have "\<not> length ?p < 6 + length rid + 1" by simp
    ultimately show ?thesis by (simp only: substr_from_def if_False)
  qed
  from 2 have 5: "str_find ?p ''/'' (0 + 6) = Some (6 + length rid)" by simp
  from 3 have 6: "substr ?p (0 + 6) (6 + length rid - (0 + 6)) = Inr rid" by simp
  show ?thesis by (rule parse_upgrade_path_eq [OF 1 5 6 4])
qed

lemma handle_websocket_upgrade_ok:
  "\<exists>r. handle_websocket_upgrade env ws req = Inr r \<and>
        (accepted r \<longleftrightarrow>
           ws \<noteq> None \<and> write_ok env \<and> req_headers req ''Sec-WebSocket-Key'' \<noteq> None \<and>
           (\<exists>room host. parse_upgrade_path (req_path req) = Inr (Parsed room host) \<and> room \<noteq> [])) \<and>
        (\<not> accepted r \<longrightarrow> ws_server r = ws)"
proof (cases ws)
  case None
  then show ?thesis by (simp add: handle_websocket_upgrade_def)
next
  case (Some srv)
  obtain pr where pr: "parse_upgrade_path (req_path req) = Inr pr"
    using parse_upgrade_path_ok by blast
  show ?thesis
  proof (cases pr)
    case InvalidRole
    with Some pr show ?thesis by (simp add: handle_websocket_upgrade_def)
  next
    case (Parsed room host)
    with Some pr show ?thesis
      by (cases "req_headers req ''Sec-WebSocket-Key''")
         (simp_all add: handle_websocket_upgrade_def Let_def)
  qed
qed

lemma accept_upgraded_connection_new:
  "accept_upgraded_connection True room peer host srv =
     srv\<lparr>sessions := map_assign peer (length (heap srv)) (sessions srv),
         heap := heap srv @
           [\<lparr>room_id = room, peer_id = peer, is_host = host, ws_open = True, reading = True,
             effects = []\<rparr>]\<rparr>"
  by (simp add: accept_upgraded_connection_def register_session_def with_session_def Let_def
      run_already_upgraded_def do_read_def new_session_bound_def)

text \<open>
  C5.  For a request path \<open>/room/<id>/<role>\<close>, where the identifier has no slash: with role
  \<open>host\<close> or \<open>viewer\<close>, a non-empty identifier, the key header, and the response written
  and the socket taken over, the upgrade is accepted and the server gets one new session, bound
  to room \<open><id>\<close> with role HOST for \<open>host\<close> and VIEWER for \<open>viewer\<close>, and registered
  under its generated peer identifier.  With any other role text the upgrade is rejected: the
  result is false, nothing is written, the server is unchanged (no session), and
  \<open>handle_client\<close> closes the socket.  And whenever an upgrade on such a path is accepted,
  the role is one of the two and the session handed over is for room \<open><id>\<close> with that role.
\<close>

theorem upgrade_path_room_and_role:
  assumes "req_path req = ''/room/'' @ rid @ ''/'' @ role" and "CHR ''/'' \<notin> set rid"
  shows "((role = ''host'' \<or> role = ''viewer'') \<and> rid \<noteq> [] \<and>
          req_headers req ''Sec-WebSocket-Key'' = Some key \<and> write_ok env \<and> assign_ok env
          \<longrightarrow> handle_websocket_upgrade env (Some srv) req =
                Inr \<lparr>accepted = True,
                     response = Some (handshake_response (compute_websocket_accept key)),
                     ws_server = Some (srv
                       \<lparr>sessions := map_assign (make_peer_id rid (role = ''host'') (now env))
                                      (length (heap srv)) (sessions srv),
                        heap := heap srv @
                          [\<lparr>room_id = rid, peer_id = make_peer_id rid (role = ''host'') (now env),
                            is_host = (role = ''host''), ws_open = True, reading = True,
                            effects = []\<rparr>]\<rparr>)\<rparr>) \<and>
         (role \<noteq> ''host'' \<and> role \<noteq> ''viewer''
          \<longrightarrow> handle_websocket_upgrade env ws req =
                Inr \<lparr>accepted = False, response = None, ws_server = ws\<rparr> \<and>
              (is_websocket_upgrade req \<longrightarrow> handle_client env ws req = (SocketClosed, ws))) \<and>
         (handle_websocket_upgrade env ws req = Inr r \<and> accepted r
          \<longrightarrow> rid \<noteq> [] \<and> (role = ''host'' \<or> role = ''viewer'') \<and>
              ws_server r =
                map_option (accept_upgraded_connection (assign_ok env) rid
                              (make_peer_id rid (role = ''host'') (now env)) (role = ''host'')) ws)"
proof -
  have p: "parse_upgrade_path (req_path req) =
           Inr (if role = ''host'' then Parsed rid True
                else if role = ''viewer'' then Parsed rid False else InvalidRole)"
    unfolding assms(1) by (rule parse_upgrade_path_room [OF assms(2)])
  have 1: "handle_websocket_upgrade env (Some srv) req =
                Inr \<lparr>accepted = True,
                     response = Some (handshake_response (compute_websocket_accept key)),
                     ws_server = Some (srv
                       \<lparr>sessions := map_assign (make_peer_id rid (role = ''host'') (now env))
                                      (length (heap srv)) (sessions srv),
                        heap := heap srv @
                          [\<lparr>room_id = rid, peer_id = make_peer_id rid (role = ''host'') (now env),
                            is_host = (role = ''host''), ws_open = True, reading = True,
                            effects = []\<rparr>]\<rparr>)\<rparr>"
    if "(role = ''host'' \<or> role = ''viewer'') \<and> rid \<noteq> [] \<and>
          req_headers req ''Sec-WebSocket-Key'' = Some key \<and> write_ok env \<and> assign_ok env"
    using that p
    by (auto simp: handle_websocket_upgrade_def Let_def accept_upgraded_connection_new)
  have 2: "handle_websocket_upgrade env ws req = Inr \<lparr>accepted = False, response = None, ws_server = ws\<rparr>"
    if "role \<noteq> ''host'' \<and> role \<noteq> ''viewer''"
    using that p by (cases ws) (simp_all add: handle_websocket_upgrade_def)
  have 3: "handle_client env ws req = (SocketClosed, ws)"
    if "role \<noteq> ''host'' \<and> role \<noteq> ''viewer''" "is_websocket_upgrade req"
    using 2 [OF that(1)] that(2) by (simp add: handle_client_def)
  have 4: "rid \<noteq> [] \<and> (role = ''host'' \<or> role = ''viewer'') \<and>
              ws_server r =
                map_option (accept_upgraded_connection (assign_ok env) rid
                              (make_peer_id rid (role = ''host'') (now env)) (role = ''host'')) ws"
    if "handle_websocket_upgrade env ws req = Inr r \<and> accepted r"
  proof (cases ws)
    case None
    with that show ?thesis by (auto simp: handle_websocket_upgrade_def)
  next
    case (Some srv)
    with that p show ?thesis
      by (cases "req_headers req ''Sec-WebSocket-Key''")
         (auto simp: handle_websocket_upgrade_def Let_def split: if_splits)
  qed
  from 1 2 3 4 show ?thesis by blast
qed

theorem upgrade_path_room_and_role_witness:
  "handle_websocket_upgrade \<lparr>write_ok = True, now = 1700000000, assign_ok = True\<rparr>
     (Some \<lparr>running = True, acceptor_open = True, ioc_stopped = False,
            accept_thread_joinable = True, sessions = [], heap = [], teardown = []\<rparr>)
     \<lparr>req_path = ''/room/abc/host'',
      req_headers = [''Upgrade'' \<mapsto> ''websocket'', ''Connection'' \<mapsto> ''Upgrade'',
                     ''Sec-WebSocket-Key'' \<mapsto> ''dGhlIHNhbXBsZSBub25jZQ=='']\<rparr> =
   Inr \<lparr>accepted = True,
        response = Some (handshake_response (compute_websocket_accept ''dGhlIHNhbXBsZSBub25jZQ=='')),
        ws_server = Some
          \<lparr>running = True, acceptor_open = True, ioc_stopped = False,
           accept_thread_joinable = True, sessions = [(''abc_host_1700000000'', 0)],
           heap = [\<lparr>room_id = ''abc'', peer_id = ''abc_host_1700000000'', is_host = True,
                    ws_open = True, reading = True, effects = []\<rparr>],
           teardown = []\<rparr>\<rparr>"
proof -
  let ?env = "\<lparr>write_ok = True, now = 1700000000, assign_ok = True\<rparr>"
  let ?srv = "\<lparr>running = True, acceptor_open = True, ioc_stopped = False,
            accept_thread_joinable = True, sessions = [], heap = [], teardown = []\<rparr>"
  let ?req = "\<lparr>req_path = ''/room/abc/host'',
      req_headers = [''Upgrade'' \<mapsto> ''websocket'', ''Connection'' \<mapsto> ''Upgrade'',
                     ''Sec-WebSocket-Key'' \<mapsto> ''dGhlIHNhbXBsZSBub25jZQ=='']\<rparr>"
  have p: "req_path ?req = ''/room/'' @ ''abc'' @ ''/'' @ ''host''" by simp
  have n: "CHR ''/'' \<notin> set ''abc''" by simp
  have h: "(''host'' = ''host'' \<or> ''host'' = ''viewer'') \<and> ''abc'' \<noteq> [] \<and>
      req_headers ?req ''Sec-WebSocket-Key'' = Some ''dGhlIHNhbXBsZSBub25jZQ=='' \<and>
      write_ok ?env \<and> assign_ok ?env"
    by simp
  have i: "make_peer_id ''abc'' True 1700000000 = ''abc_host_1700000000''"
    by (simp add: make_peer_id_def to_string_def digits.simps char_of_eq_iff)
  from mp [OF conjunct1 [OF upgrade_path_room_and_role [OF p n,
        of "''dGhlIHNhbXBsZSBub25jZQ==''" ?env ?srv None
           "\<lparr>accepted = False, response = None, ws_server = None\<rparr>"]] h]
  show ?thesis by (simp add: i)
qed

section \<open>Failures\<close>

lemma handle_message_join:
  assumes "parse_message message = Inr msg" and "msg_type msg = JOIN"
  shows "handle_message add_peer message s =
     Inr (s\<lparr>room_id := msg_room_id msg,
           is_host := contains (msg_data msg) ''\"role\":\"host\"'',
           peer_id := add_peer (msg_room_id msg) (msg_data msg) (msg_data msg)
                        (if contains (msg_data msg) ''\"role\":\"host\"'' then HOST else VIEWER),
           effects := effects s @
             [AddPeer (msg_room_id msg) (msg_data msg) (msg_data msg)
                (if contains (msg_data msg) ''\"role\":\"host\"'' then HOST else VIEWER),
              WsWrite (build_message JOIN
                (''{\"peer_id\":\"'' @
                 add_peer (msg_room_id msg) (msg_data msg) (msg_data msg)
                   (if contains (msg_data msg) ''\"role\":\"host\"'' then HOST else VIEWER) @
                 ''\",\"room_id\":\"'' @ msg_room_id msg @ ''\"}''))]\<rparr>)"
  using assms by (simp add: handle_message_def handle_join_def send_def Let_def)

lemma handle_message_ok: "\<exists>s'. handle_message add_peer message s = Inr s'"
proof -
  obtain msg where "parse_message message = Inr msg"
    using parse_message_ok by blast
  then show ?thesis
    by (cases "msg_type msg") (simp_all add: handle_message_def)
qed

lemma session_frame_registry:
  "session_frame add_peer a message srv = Inr srv' \<Longrightarrow> sessions srv' = sessions srv"
  by (auto simp: session_frame_def split: if_splits sum.splits)

text \<open>
  C7, as the code has it.  The handshake never throws, and every failure it detects itself (no
  WebSocket server, a role other than \<open>host\<close> and \<open>viewer\<close>, an empty room identifier, no
  key header, a write of the response that returns an error) makes it return false with the
  server as it was, so that no session is created or registered.  \<open>handle_client\<close> calls the
  handshake only for a request that \<open>is_websocket_upgrade\<close> accepts, and closes the socket
  whenever the handshake returns false; a request without the key header is not an upgrade
  request, never reaches the handshake and goes to the route table.  A failed
  \<open>socket.assign\<close> in \<open>accept_upgraded_connection\<close> is caught there and leaves the server
  as it was.  Decoding and routing a frame never throw.  The JOIN branch has no failure
  result: whatever string \<open>add_peer\<close> returns becomes the peer identifier and is acknowledged
  with a JOIN frame, the room and the role stay as set from the message, and no step of a
  session changes the registry.
\<close>

theorem failures_reject_or_pass_silently:
  "(\<exists>r. handle_websocket_upgrade env ws req = Inr r \<and>
        (ws = None \<or> parse_upgrade_path (req_path req) = Inr InvalidRole \<or>
         parse_upgrade_path (req_path req) = Inr (Parsed [] host) \<or>
         req_headers req ''Sec-WebSocket-Key'' = None \<or> \<not> write_ok env
         \<longrightarrow> \<not> accepted r) \<and>
        (\<not> accepted r
         \<longrightarrow> ws_server r = ws \<and>
             (is_websocket_upgrade req \<longrightarrow> handle_client env ws req = (SocketClosed, ws)))) \<and>
   (is_websocket_upgrade req \<and>
    (ws = None \<or> parse_upgrade_path (req_path req) = Inr InvalidRole \<or>
     parse_upgrade_path (req_path req) = Inr (Parsed [] host) \<or> \<not> write_ok env)
    \<longrightarrow> handle_client env ws req = (SocketClosed, ws)) \<and>
   (req_headers req ''Sec-WebSocket-Key'' = None
    \<longrightarrow> \<not> is_websocket_upgrade req \<and> handle_client env ws req = (OrdinaryRouting, ws)) \<and>
   accept_upgraded_connection False room peer host srv = srv \<and>
   (\<exists>s'. handle_message add_peer message s = Inr s') \<and>
   (parse_message message = Inr msg \<and> msg_type msg = JOIN
    \<longrightarrow> (\<exists>s'. handle_message add_peer message s = Inr s' \<and>
              peer_id s' = add_peer (msg_room_id msg) (msg_data msg) (msg_data msg)
                             (if is_host s' then HOST else VIEWER) \<and>
              room_id s' = msg_room_id msg \<and>
              (is_host s' \<longleftrightarrow> contains (msg_data msg) ''\"role\":\"host\"'') \<and>
              ws_open s' = ws_open s \<and>
              effects s' = effects s @
                [AddPeer (room_id s') (msg_data msg) (msg_data msg) (if is_host s' then HOST else VIEWER),
                 WsWrite (build_message JOIN
                   (''{\"peer_id\":\"'' @ peer_id s' @ ''\",\"room_id\":\"'' @ room_id s' @ ''\"}''))])) \<and>
   (session_frame add_peer a message srv = Inr srv' \<longrightarrow> sessions srv' = sessions srv)"
proof -
  obtain r where r: "handle_websocket_upgrade env ws req = Inr r"
    and acc: "accepted r \<longleftrightarrow>
           ws \<noteq> None \<and> write_ok env \<and> req_headers req ''Sec-WebSocket-Key'' \<noteq> None \<and>
           (\<exists>room host. parse_upgrade_path (req_path req) = Inr (Parsed room host) \<and> room \<noteq> [])"
    and rej: "\<not> accepted r \<longrightarrow> ws_server r = ws"
    using handle_websocket_upgrade_ok [of env ws req] by blast
  have det: "\<not> accepted r"
    if "ws = None \<or> parse_upgrade_path (req_path req) = Inr InvalidRole \<or>
         parse_upgrade_path (req_path req) = Inr (Parsed [] host) \<or>
         req_headers req ''Sec-WebSocket-Key'' = None \<or> \<not> write_ok env"
    using that acc by auto
  have cl: "ws_server r = ws \<and>
             (is_websocket_upgrade req \<longrightarrow> handle_client env ws req = (SocketClosed, ws))"
    if "\<not> accepted r"
    using that r rej by (simp add: handle_client_def)
  have 1: "\<exists>r. handle_websocket_upgrade env ws req = Inr r \<and>
        (ws = None \<or> parse_upgrade_path (req_path req) = Inr InvalidRole \<or>
         parse_upgrade_path (req_path req) = Inr (Parsed [] host) \<or>
         req_headers req ''Sec-WebSocket-Key'' = None \<or> \<not> write_ok env
         \<longrightarrow> \<not> accepted r) \<and>
        (\<not> accepted r
         \<longrightarrow> ws_server r = ws \<and>
             (is_websocket_upgrade req \<longrightarrow> handle_client env ws req = (SocketClosed, ws)))"
  proof (rule exI [of _ r], rule conjI [OF r], rule conjI)
    show "ws = None \<or> parse_upgrade_path (req_path req) = Inr InvalidRole \<or>
         parse_upgrade_path (req_path req) = Inr (Parsed [] host) \<or>
         req_headers req ''Sec-WebSocket-Key'' = None \<or> \<not> write_ok env
         \<longrightarrow> \<not> accepted r"
      by (rule impI) (rule det)
    show "\<not> accepted r
         \<longrightarrow> ws_server r = ws \<and>
             (is_websocket_upgrade req \<longrightarrow> handle_client env ws req = (SocketClosed, ws))"
      by (rule impI) (rule cl)
  qed
  have 6: "handle_client env ws req = (SocketClosed, ws)"
    if "is_websocket_upgrade req \<and>
        (ws = None \<or> parse_upgrade_path (req_path req) = Inr InvalidRole \<or>
         parse_upgrade_path (req_path req) = Inr (Parsed [] host) \<or> \<not> write_ok env)"
  proof -
    from that have "\<not> accepted r" by (intro det) blast
    from cl [OF this] that show ?thesis by blast
  qed
  have 7: "\<not> is_websocket_upgrade req \<and> handle_client env ws req = (OrdinaryRouting, ws)"
    if "req_headers req ''Sec-WebSocket-Key'' = None"
  proof -
    from that have "\<not> is_websocket_upgrade req"
      by (simp add: is_websocket_upgrade_def split: option.splits)
    then show ?thesis by (simp add: handle_client_def)
  qed
  have 2: "accept_upgraded_connection False room peer host srv = srv"
    by (simp add: accept_upgraded_connection_def)
  have 3: "\<exists>s'. handle_message add_peer message s = Inr s'"
    by (rule handle_message_ok)
  have 4: "\<exists>s'. handle_message add_peer message s = Inr s' \<and>
              peer_id s' = add_peer (msg_room_id msg) (msg_data msg) (msg_data msg)
                             (if is_host s' then HOST else VIEWER) \<and>
              room_id s' = msg_room_id msg \<and>
              (is_host s' \<longleftrightarrow> contains (msg_data msg) ''\"role\":\"host\"'') \<and>
              ws_open s' = ws_open s \<and>
              effects s' = effects s @
                [AddPeer (room_id s') (msg_data msg) (msg_data msg) (if is_host s' then HOST else VIEWER),
                 WsWrite (build_message JOIN
                   (''{\"peer_id\":\"'' @ peer_id s' @ ''\",\"room_id\":\"'' @ room_id s' @ ''\"}''))]"
    if "parse_message message = Inr msg \<and> msg_type msg = JOIN"
  proof -
    from that have "parse_message message = Inr msg" and "msg_type msg = JOIN" by simp_all
    from handle_message_join [OF this, of add_peer s] show ?thesis by simp
  qed
  have 5: "sessions srv' = sessions srv" if "session_frame add_peer a message srv = Inr srv'"
    using that by (rule session_frame_registry)
  from 1 6 7 2 3 4 5 show ?thesis by blast
qed

theorem failures_reject_or_pass_silently_witness:
  "handle_client \<lparr>write_ok = True, now = 1, assign_ok = True\<rparr>
     (Some \<lparr>running = True, acceptor_open = True, ioc_stopped = False,
            accept_thread_joinable = True, sessions = [], heap = [], teardown = []\<rparr>)
     \<lparr>req_path = ''/room/abc/admin'',
      req_headers = [''Upgrade'' \<mapsto> ''websocket'', ''Connection'' \<mapsto> ''Upgrade'',
                     ''Sec-WebSocket-Key'' \<mapsto> ''dGhlIHNhbXBsZSBub25jZQ=='']\<rparr> =
   (SocketClosed,
    Some \<lparr>running = True, acceptor_open = True, ioc_stopped = False,
          accept_thread_joinable = True, sessions = [], heap = [], teardown = []\<rparr>) \<and>
   handle_client \<lparr>write_ok = False, now = 1, assign_ok = True\<rparr>
     (Some \<lparr>running = True, acceptor_open = True, ioc_stopped = False,
            accept_thread_joinable = True, sessions = [], heap = [], teardown = []\<rparr>)
     \<lparr>req_path = ''/room/abc/host'',
      req_headers = [''Upgrade'' \<mapsto> ''websocket'', ''Connection'' \<mapsto> ''Upgrade'',
                     ''Sec-WebSocket-Key'' \<mapsto> ''dGhlIHNhbXBsZSBub25jZQ=='']\<rparr> =
   (SocketClosed,
    Some \<lparr>running = True, acceptor_open = True, ioc_stopped = False,
          accept_thread_joinable = True, sessions = [], heap = [], teardown = []\<rparr>) \<and>
   handle_client \<lparr>write_ok = True, now = 1, assign_ok = True\<rparr>
     (Some \<lparr>running = True, acceptor_open = True, ioc_stopped = False,
            accept_thread_joinable = True, sessions = [], heap = [], teardown = []\<rparr>)
     \<lparr>req_path = ''/room/abc/host'',
      req_headers = [''Upgrade'' \<mapsto> ''websocket'', ''Connection'' \<mapsto> ''Upgrade'']\<rparr> =
   (OrdinaryRouting,
    Some \<lparr>running = True, acceptor_open = True, ioc_stopped = False,
          accept_thread_joinable = True, sessions = [], heap = [], teardown = []\<rparr>) \<and>
   (\<exists>s'. handle_message (\<lambda>r d m x. ''p7'') ''{\"type\":\"join\",\"room_id\":\"r1\"}'' new_session = Inr s' \<and>
         peer_id s' = ''p7'' \<and> room_id s' = ''r1'' \<and> \<not> is_host s')"
proof -
  let ?env = "\<lparr>write_ok = True, now = 1, assign_ok = True\<rparr>"
  let ?envw = "\<lparr>write_ok = False, now = 1, assign_ok = True\<rparr>"
  let ?srv = "\<lparr>running = True, acceptor_open = True, ioc_stopped = False,
            accept_thread_joinable = True, sessions = [], heap = [], teardown = []\<rparr>"
  let ?req = "\<lparr>req_path = ''/room/abc/admin'',
      req_headers = [''Upgrade'' \<mapsto> ''websocket'', ''Connection'' \<mapsto> ''Upgrade'',
                     ''Sec-WebSocket-Key'' \<mapsto> ''dGhlIHNhbXBsZSBub25jZQ=='']\<rparr>"
  let ?reqh = "\<lparr>req_path = ''/room/abc/host'',
      req_headers = [''Upgrade'' \<mapsto> ''websocket'', ''Connection'' \<mapsto> ''Upgrade'',
                     ''Sec-WebSocket-Key'' \<mapsto> ''dGhlIHNhbXBsZSBub25jZQ=='']\<rparr>"
  let ?reqk = "\<lparr>req_path = ''/room/abc/host'',
      req_headers = [''Upgrade'' \<mapsto> ''websocket'', ''Connection'' \<mapsto> ''Upgrade'']\<rparr>"
  let ?m = "''{\"type\":\"join\",\"room_id\":\"r1\"}''"
  let ?msg = "\<lparr>msg_type = JOIN, msg_data = ?m, msg_room_id = ''r1'', msg_peer_id = []\<rparr>"
  let ?ap = "\<lambda>r d m x. ''p7''"
  have "parse_upgrade_path (''/room/'' @ ''abc'' @ ''/'' @ ''admin'') = Inr InvalidRole"
    using parse_upgrade_path_room [of "''abc''" "''admin''"] by simp
  then have bad: "parse_upgrade_path (req_path ?req) = Inr InvalidRole"
    by simp
  have up: "is_websocket_upgrade ?req" "is_websocket_upgrade ?reqh"
    by (simp_all add: is_websocket_upgrade_def contains_def str_find_def tolower_def less_eq_char_def)
  have nw: "\<not> write_ok ?envw" by simp
  have nk: "req_headers ?reqk ''Sec-WebSocket-Key'' = None" by simp
  have pm: "parse_message ?m = Inr ?msg \<and> msg_type ?msg = JOIN"
    by (simp add: parse_message_def contains_def str_find_def extract_room_id_def substr_def)
  have nh: "\<not> contains (msg_data ?msg) ''\"role\":\"host\"''"
    by (simp add: contains_def str_find_def)
  note t = failures_reject_or_pass_silently
             [of ?env "Some ?srv" ?req False "[]" "[]" ?srv ?ap ?m new_session ?msg 0 ?srv]
  note tw = failures_reject_or_pass_silently
             [of ?envw "Some ?srv" ?reqh False "[]" "[]" ?srv ?ap ?m new_session ?msg 0 ?srv]
  note tk = failures_reject_or_pass_silently
             [of ?env "Some ?srv" ?reqk False "[]" "[]" ?srv ?ap ?m new_session ?msg 0 ?srv]
  from t bad up(1) have 1: "handle_client ?env (Some ?srv) ?req = (SocketClosed, Some ?srv)"
    by blast
  from tw nw up(2) have 2: "handle_client ?envw (Some ?srv) ?reqh = (SocketClosed, Some ?srv)"
    by blast
  from tk nk have 3: "handle_client ?env (Some ?srv) ?reqk = (OrdinaryRouting, Some ?srv)"
    by blast
  from t pm obtain s' where "handle_message ?ap ?m new_session = Inr s'"
    and "peer_id s' = ?ap (msg_room_id ?msg) (msg_data ?msg) (msg_data ?msg)
                             (if is_host s' then HOST else VIEWER)"
    and "room_id s' = msg_room_id ?msg"
    and "is_host s' \<longleftrightarrow> contains (msg_data ?msg) ''\"role\":\"host\"''"
    by blast
  with nh have 4: "\<exists>s'. handle_message ?ap ?m new_session = Inr s' \<and>
         peer_id s' = ''p7'' \<and> room_id s' = ''r1'' \<and> \<not> is_host s'"
    by auto
  from 1 2 3 4 show ?thesis by (intro conjI)
qed

text \<open>
  C7 as stated fails.  When \<open>add_peer\<close> fails by returning the empty string, the JOIN is
  acknowledged as if it had succeeded and the session keeps the room of the message: there is
  no failure result.  And when \<open>socket.assign\<close> fails after the response has been written,
  the upgrade still counts as accepted: the socket is not closed, no failure is returned, and
  there is no session.
\<close>

theorem collaborator_failure_counterexample:
  "handle_message (\<lambda>r d m x. []) ''{\"type\":\"join\",\"room_id\":\"r1\"}'' (do_read new_session) =
     Inr \<lparr>room_id = ''r1'', peer_id = [], is_host = False, ws_open = True, reading = True,
          effects =
            [AddPeer ''r1'' ''{\"type\":\"join\",\"room_id\":\"r1\"}''
               ''{\"type\":\"join\",\"room_id\":\"r1\"}'' VIEWER,
             WsWrite ''{\"type\":\"join\",\"data\":{\"peer_id\":\"\",\"room_id\":\"r1\"}}'']\<rparr> \<and>
   handle_client \<lparr>write_ok = True, now = 1, assign_ok = False\<rparr>
     (Some \<lparr>running = True, acceptor_open = True, ioc_stopped = False,
            accept_thread_joinable = True, sessions = [], heap = [], teardown = []\<rparr>)
     \<lparr>req_path = ''/room/abc/host'',
      req_headers = [''Upgrade'' \<mapsto> ''websocket'', ''Connection'' \<mapsto> ''Upgrade'',
                     ''Sec-WebSocket-Key'' \<mapsto> ''dGhlIHNhbXBsZSBub25jZQ=='']\<rparr> =
   (SocketHandedOver,
    Some \<lparr>running = True, acceptor_open = True, ioc_stopped = False,
          accept_thread_joinable = True, sessions = [], heap = [], teardown = []\<rparr>)"
proof (rule conjI)
  show "handle_message (\<lambda>r d m x. []) ''{\"type\":\"join\",\"room_id\":\"r1\"}'' (do_read new_session) =
     Inr \<lparr>room_id = ''r1'', peer_id = [], is_host = False, ws_open = True, reading = True,
          effects =
            [AddPeer ''r1'' ''{\"type\":\"join\",\"room_id\":\"r1\"}''
               ''{\"type\":\"join\",\"room_id\":\"r1\"}'' VIEWER,
             WsWrite ''{\"type\":\"join\",\"data\":{\"peer_id\":\"\",\"room_id\":\"r1\"}}'']\<rparr>"
    by (simp add: handle_message_def parse_message_def contains_def str_find_def
        extract_room_id_def substr_def handle_join_def Let_def send_def build_message_def
        type_name_def do_read_def new_session_def)
next
  have p: "parse_upgrade_path (''/room/'' @ ''abc'' @ ''/'' @ ''host'') = Inr (Parsed ''abc'' True)"
    using parse_upgrade_path_room [of "''abc''" "''host''"] by simp
  have up: "is_websocket_upgrade \<lparr>req_path = ''/room/abc/host'',
      req_headers = [''Upgrade'' \<mapsto> ''websocket'', ''Connection'' \<mapsto> ''Upgrade'',
                     ''Sec-WebSocket-Key'' \<mapsto> ''dGhlIHNhbXBsZSBub25jZQ=='']\<rparr>"
    by (simp add: is_websocket_upgrade_def contains_def str_find_def tolower_def less_eq_char_def)
  from p up show "handle_client \<lparr>write_ok = True, now = 1, assign_ok = False\<rparr>
     (Some \<lparr>running = True, acceptor_open = True, ioc_stopped = False,
            accept_thread_joinable = True, sessions = [], heap = [], teardown = []\<rparr>)
     \<lparr>req_path = ''/room/abc/host'',
      req_headers = [''Upgrade'' \<mapsto> ''websocket'', ''Connection'' \<mapsto> ''Upgrade'',
                     ''Sec-WebSocket-Key'' \<mapsto> ''dGhlIHNhbXBsZSBub25jZQ=='']\<rparr> =
   (SocketHandedOver,
    Some \<lparr>running = True, acceptor_open = True, ioc_stopped = False,
          accept_thread_joinable = True, sessions = [], heap = [], teardown = []\<rparr>)"
    by (simp add: handle_client_def handle_websocket_upgrade_def Let_def accept_upgraded_connection_def)
qed

section \<open>The credential of the sample nonce\<close>

lemma sha1_rounds_append:
  "sha1_rounds t (xs @ ys) s = sha1_rounds (t + length xs) ys (sha1_rounds t xs s)"
  by (induction t xs s rule: sha1_rounds.induct) simp_all

lemma sha1_blocks_Nil: "sha1_blocks h [] = h"
  by (simp add: sha1_blocks.simps)

lemma sha1_blocks_step:
  assumes "length blk = 16"
  shows "sha1_blocks h (blk @ rest) = sha1_blocks (sha1_block h blk) rest"
  by (subst sha1_blocks.simps) (use assms in auto)

lemma sha1_rounds_4x20:
  assumes "length A = 20" and "length B = 20" and "length C = 20"
    and "sha1_rounds 0 A s = s1" and "sha1_rounds 20 B s1 = s2"
    and "sha1_rounds 40 C s2 = s3" and "sha1_rounds 60 D s3 = s4"
  shows "sha1_rounds 0 (A @ B @ C @ D) s = s4"
  using assms by (simp add: sha1_rounds_append)

text \<open>Block 1 of the padded input: the message schedule, then the 80 rounds in four runs of 20.\<close>

lemma sample_schedule_1:
  "rev (sha1_extend 64 (rev
     [0x6447686C, 0x49484E68, 0x62584273, 0x5A534275, 0x6232356A, 0x5A513D3D, 0x32353845,
      0x41464135, 0x2D453931, 0x342D3437, 0x44412D39, 0x3543412D, 0x43354142, 0x30444338,
      0x35423131, 0x80000000])) =
     [0x6447686C, 0x49484E68, 0x62584273, 0x5A534275, 0x6232356A, 0x5A513D3D, 0x32353845,
      0x41464135, 0x2D453931, 0x342D3437, 0x44412D39, 0x3543412D, 0x43354142, 0x30444338,
      0x35423131, 0x80000000, 0x363CA02C, 0x24E81236, 0x8856B441, 0x06FB3C92] @
     [0x6FB4BCB6, 0x460B16E3, 0x599219AE, 0x35BF9369, 0x3267458E, 0xF828FD04, 0x753A96A7,
      0x6336F612, 0xC3D66383, 0x06EB86F9, 0x73B4FD42, 0xA503C5B8, 0x15CDAE35, 0x531E5DC5,
      0x6FB6B7D0, 0x6C16E4AC, 0x4DDD36BD, 0x35D36946, 0xE8AE8B9C, 0x4A933AD0] @
     [0xCE8628B4, 0x415DBA9E, 0x2792F049, 0x8E9B79E7, 0x79C425C5, 0x6353B49D, 0x00994218,
      0x8A950ED1, 0xAF5D0B99, 0xFD9883DE, 0x1ED8FFEB, 0xF007FF28, 0x425E3674, 0x059631C0,
      0xAD6C3C31, 0x860B71D7, 0x87BFC548, 0x3E64F92D, 0x8D0AB761, 0x34E1EE35] @
     [0x0ACF5108, 0xC2B479DA, 0x6C93370A, 0xF7935BA1, 0xE91C91C1, 0xBED165A2, 0x4C3E4ABE,
      0x50D96238, 0xB6587DDE, 0x1A2EE6E6, 0x2D335896, 0xF3495D0B, 0xF30E0A1D, 0x32CE5459,
      0x7165E3B8, 0xAB05FF94, 0xC5949F0B, 0xBCD84E4A, 0x07720392, 0xFF3FF806]"
  by (simp add: sha1_extend.simps rotl_def)

lemma sample_rounds_1_1:
  "sha1_rounds 0
     [0x6447686C, 0x49484E68, 0x62584273, 0x5A534275, 0x6232356A, 0x5A513D3D, 0x32353845,
      0x41464135, 0x2D453931, 0x342D3437, 0x44412D39, 0x3543412D, 0x43354142, 0x30444338,
      0x35423131, 0x80000000, 0x363CA02C, 0x24E81236, 0x8856B441, 0x06FB3C92]
     (0x67452301, 0xEFCDAB89, 0x98BADCFE, 0x10325476, 0xC3D2E1F0) =
     (0x091AB97C, 0x8DC510B6, 0xDFAECA5A, 0x75F6BD5D, 0x2801311A)"
  by (simp add: rotl_def sha1_f_def sha1_k_def)

lemma sample_rounds_1_2:
  "sha1_rounds 20
     [0x6FB4BCB6, 0x460B16E3, 0x599219AE, 0x35BF9369, 0x3267458E, 0xF828FD04, 0x753A96A7,
      0x6336F612, 0xC3D66383, 0x06EB86F9, 0x73B4FD42, 0xA503C5B8, 0x15CDAE35, 0x531E5DC5,
      0x6FB6B7D0, 0x6C16E4AC, 0x4DDD36BD, 0x35D36946, 0xE8AE8B9C, 0x4A933AD0]
     (0x091AB97C, 0x8DC510B6, 0xDFAECA5A, 0x75F6BD5D, 0x2801311A) =
     (0x2BA2C83E, 0xD0869081, 0x1A1D8209, 0xD3334889, 0x2779E4F2)"
  by (simp add: rotl_def sha1_f_def sha1_k_def)

lemma sample_rounds_1_3:
  "sha1_rounds 40
     [0xCE8628B4, 0x415DBA9E, 0x2792F049, 0x8E9B79E7, 0x79C425C5, 0x6353B49D, 0x00994218,
      0x8A950ED1, 0xAF5D0B99, 0xFD9883DE, 0x1ED8FFEB, 0xF007FF28, 0x425E3674, 0x059631C0,
      0xAD6C3C31, 0x860B71D7, 0x87BFC548, 0x3E64F92D, 0x8D0AB761, 0x34E1EE35]
     (0x2BA2C83E, 0xD0869081, 0x1A1D8209, 0xD3334889, 0x2779E4F2) =
     (0x4872D85A, 0xD284F163, 0x83091F0B, 0x1BBDBFBD, 0x9F8490BC)"
  by (simp add: rotl_def sha1_f_def sha1_k_def)

lemma sample_rounds_1_4:
  "sha1_rounds 60
     [0x0ACF5108, 0xC2B479DA, 0x6C93370A, 0xF7935BA1, 0xE91C91C1, 0xBED165A2, 0x4C3E4ABE,
      0x50D96238, 0xB6587DDE, 0x1A2EE6E6, 0x2D335896, 0xF3495D0B, 0xF30E0A1D, 0x32CE5459,
      0x7165E3B8, 0xAB05FF94, 0xC5949F0B, 0xBCD84E4A, 0x07720392, 0xFF3FF806]
     (0x4872D85A, 0xD284F163, 0x83091F0B, 0x1BBDBFBD, 0x9F8490BC) =
     (0xF48A5426, 0x835995E1, 0x25C11EFB, 0x4A45C402, 0x9A73C2F2)"
  by (simp add: rotl_def sha1_f_def sha1_k_def)

lemma sample_block_1:
  "sha1_block (0x67452301, 0xEFCDAB89, 0x98BADCFE, 0x10325476, 0xC3D2E1F0)
     [0x6447686C, 0x49484E68, 0x62584273, 0x5A534275, 0x6232356A, 0x5A513D3D, 0x32353845,
      0x41464135, 0x2D453931, 0x342D3437, 0x44412D39, 0x3543412D, 0x43354142, 0x30444338,
      0x35423131, 0x80000000] =
   (0x5BCF7727, 0x7327416A, 0xBE7BFBF9, 0x5A781878, 0x5E46A4E2)"
proof -
  have r: "sha1_rounds 0
     ([0x6447686C, 0x49484E68, 0x62584273, 0x5A534275, 0x6232356A, 0x5A513D3D, 0x32353845,
      0x41464135, 0x2D453931, 0x342D3437, 0x44412D39, 0x3543412D, 0x43354142, 0x30444338,
      0x35423131, 0x80000000, 0x363CA02C, 0x24E81236, 0x8856B441, 0x06FB3C92] @
      [0x6FB4BCB6, 0x460B16E3, 0x599219AE, 0x35BF9369, 0x3267458E, 0xF828FD04, 0x753A96A7,
      0x6336F612, 0xC3D66383, 0x06EB86F9, 0x73B4FD42, 0xA503C5B8, 0x15CDAE35, 0x531E5DC5,
      0x6FB6B7D0, 0x6C16E4AC, 0x4DDD36BD, 0x35D36946, 0xE8AE8B9C, 0x4A933AD0] @
      [0xCE8628B4, 0x415DBA9E, 0x2792F049, 0x8E9B79E7, 0x79C425C5, 0x6353B49D, 0x00994218,
      0x8A950ED1, 0xAF5D0B99, 0xFD9883DE, 0x1ED8FFEB, 0xF007FF28, 0x425E3674, 0x059631C0,
      0xAD6C3C31, 0x860B71D7, 0x87BFC548, 0x3E64F92D, 0x8D0AB761, 0x34E1EE35] @
      [0x0ACF5108, 0xC2B479DA, 0x6C93370A, 0xF7935BA1, 0xE91C91C1, 0xBED165A2, 0x4C3E4ABE,
      0x50D96238, 0xB6587DDE, 0x1A2EE6E6, 0x2D335896, 0xF3495D0B, 0xF30E0A1D, 0x32CE5459,
      0x7165E3B8, 0xAB05FF94, 0xC5949F0B, 0xBCD84E4A, 0x07720392, 0xFF3FF806])
     (0x67452301, 0xEFCDAB89, 0x98BADCFE, 0x10325476, 0xC3D2E1F0) =
     (0xF48A5426, 0x835995E1, 0x25C11EFB, 0x4A45C402, 0x9A73C2F2)"
    by (rule sha1_rounds_4x20 [OF _ _ _ sample_rounds_1_1 sample_rounds_1_2 sample_rounds_1_3 sample_rounds_1_4])
       simp_all
  show ?thesis
    unfolding sha1_block_def sample_schedule_1 r by simp
qed

text \<open>Block 2 of the padded input: the message schedule, then the 80 rounds in four runs of 20.\<close>

lemma sample_schedule_2:
  "rev (sha1_extend 64 (rev
     [0x00000000, 0x00000000, 0x00000000, 0x00000000, 0x00000000, 0x00000000, 0x00000000,
      0x00000000, 0x00000000, 0x00000000, 0x00000000, 0x00000000, 0x00000000, 0x00000000,
      0x00000000, 0x000001E0])) =
     [0x00000000, 0x00000000, 0x00000000, 0x00000000, 0x00000000, 0x00000000, 0x00000000,
      0x00000000, 0x00000000, 0x00000000, 0x00000000, 0x00000000, 0x00000000, 0x00000000,
      0x00000000, 0x000001E0, 0x00000000, 0x00000000, 0x000003C0, 0x00000000] @
     [0x00000000, 0x00000780, 0x00000000, 0x000003C0, 0x00000F00, 0x00000000, 0x00000000,
      0x00001E00, 0x00000000, 0x00000CC0, 0x00003C00, 0x00000440, 0x00000000, 0x00007800,
      0x00000F00, 0x00003300, 0x0000F000, 0x00000F00, 0x00000000, 0x0001EF00] @
     [0x00000000, 0x0000CC00, 0x0003C000, 0x00004380, 0x00000000, 0x00078F00, 0x0000FF00,
      0x00032680, 0x000F0000, 0x0000F000, 0x00003300, 0x001EFF00, 0x00000000, 0x000CB800,
      0x003C0000, 0x00040B00, 0x0000F000, 0x0078FF00, 0x000FF000, 0x00338700] @
     [0x00F00000, 0x000FC300, 0x0000F000, 0x01EFBB00, 0x00000000, 0x00CC0000, 0x03C0F000,
      0x00438000, 0x00000000, 0x078F0000, 0x00FF0000, 0x03269E00, 0x0F000000, 0x00F0F000,
      0x00333C00, 0x1EFF8800, 0x00000000, 0x0CB88800, 0x3C00F000, 0x040A4A00]"
  by (simp add: sha1_extend.simps rotl_def)

lemma sample_rounds_2_1:
  "sha1_rounds 0
     [0x00000000, 0x00000000, 0x00000000, 0x00000000, 0x00000000, 0x00000000, 0x00000000,
      0x00000000, 0x00000000, 0x00000000, 0x00000000, 0x00000000, 0x00000000, 0x00000000,
      0x00000000, 0x000001E0, 0x00000000, 0x00000000, 0x000003C0, 0x00000000]
     (0x5BCF7727, 0x7327416A, 0xBE7BFBF9, 0x5A781878, 0x5E46A4E2) =
     (0x2A008B51, 0x2F193A09, 0x9C8663C1, 0x8EB5D103, 0x261B7C9A)"
  by (simp add: rotl_def sha1_f_def sha1_k_def)

lemma sample_rounds_2_2:
  "sha1_rounds 20
     [0x00000000, 0x00000780, 0x00000000, 0x000003C0, 0x00000F00, 0x00000000, 0x00000000,
      0x00001E00, 0x00000000, 0x00000CC0, 0x00003C00, 0x00000440, 0x00000000, 0x00007800,
      0x00000F00, 0x00003300, 0x0000F000, 0x00000F00, 0x00000000, 0x0001EF00]
     (0x2A008B51, 0x2F193A09, 0x9C8663C1, 0x8EB5D103, 0x261B7C9A) =
     (0x6F698F1A, 0xC6FF0CD3, 0xDE5AB7BC, 0x5F6F3CBB, 0x1DA48A85)"
  by (simp add: rotl_def sha1_f_def sha1_k_def)

lemma sample_rounds_2_3:
  "sha1_rounds 40
     [0x00000000, 0x0000CC00, 0x0003C000, 0x00004380, 0x00000000, 0x00078F00, 0x0000FF00,
      0x00032680, 0x000F0000, 0x0000F000, 0x00003300, 0x001EFF00, 0x00000000, 0x000CB800,
      0x003C0000, 0x00040B00, 0x0000F000, 0x0078FF00, 0x000FF000, 0x00338700]
     (0x6F698F1A, 0xC6FF0CD3, 0xDE5AB7BC, 0x5F6F3CBB, 0x1DA48A85) =
     (0x56119F19, 0x085EB2FE, 0x484A25C5, 0xC140CFE8, 0x686DA050)"
  by (simp add: rotl_def sha1_f_def sha1_k_def)

lemma sample_rounds_2_4:
  "sha1_rounds 60
     [0x00F00000, 0x000FC300, 0x0000F000, 0x01EFBB00, 0x00000000, 0x00CC0000, 0x03C0F000,
      0x00438000, 0x00000000, 0x078F0000, 0x00FF0000, 0x03269E00, 0x0F000000, 0x00F0F000,
      0x00333C00, 0x1EFF8800, 0x00000000, 0x0CB88800, 0x3C00F000, 0x040A4A00]
     (0x56119F19, 0x085EB2FE, 0x484A25C5, 0xC140CFE8, 0x686DA050) =
     (0x57AAD805, 0x4D3B0DAC, 0xD27A4A0D, 0x74C040CD, 0x54782008)"
  by (simp add: rotl_def sha1_f_def sha1_k_def)

lemma sample_block_2:
  "sha1_block (0x5BCF7727, 0x7327416A, 0xBE7BFBF9, 0x5A781878, 0x5E46A4E2)
     [0x00000000, 0x00000000, 0x00000000, 0x00000000, 0x00000000, 0x00000000, 0x00000000,
      0x00000000, 0x00000000, 0x00000000, 0x00000000, 0x00000000, 0x00000000, 0x00000000,
      0x00000000, 0x000001E0] =
   (0xB37A4F2C, 0xC0624F16, 0x90F64606, 0xCF385945, 0xB2BEC4EA)"
proof -
  have r: "sha1_rounds 0
     ([0x00000000, 0x00000000, 0x00000000, 0x00000000, 0x00000000, 0x00000000, 0x00000000,
      0x00000000, 0x00000000, 0x00000000, 0x00000000, 0x00000000, 0x00000000, 0x00000000,
      0x00000000, 0x000001E0, 0x00000000, 0x00000000, 0x000003C0, 0x00000000] @
      [0x00000000, 0x00000780, 0x00000000, 0x000003C0, 0x00000F00, 0x00000000, 0x00000000,
      0x00001E00, 0x00000000, 0x00000CC0, 0x00003C00, 0x00000440, 0x00000000, 0x00007800,
      0x00000F00, 0x00003300, 0x0000F000, 0x00000F00, 0x00000000, 0x0001EF00] @
      [0x00000000, 0x0000CC00, 0x0003C000, 0x00004380, 0x00000000, 0x00078F00, 0x0000FF00,
      0x00032680, 0x000F0000, 0x0000F000, 0x00003300, 0x001EFF00, 0x00000000, 0x000CB800,
      0x003C0000, 0x00040B00, 0x0000F000, 0x0078FF00, 0x000FF000, 0x00338700] @
      [0x00F00000, 0x000FC300, 0x0000F000, 0x01EFBB00, 0x00000000, 0x00CC0000, 0x03C0F000,
      0x00438000, 0x00000000, 0x078F0000, 0x00FF0000, 0x03269E00, 0x0F000000, 0x00F0F000,
      0x00333C00, 0x1EFF8800, 0x00000000, 0x0CB88800, 0x3C00F000, 0x040A4A00])
     (0x5BCF7727, 0x7327416A, 0xBE7BFBF9, 0x5A781878, 0x5E46A4E2) =
     (0x57AAD805, 0x4D3B0DAC, 0xD27A4A0D, 0x74C040CD, 0x54782008)"
    by (rule sha1_rounds_4x20 [OF _ _ _ sample_rounds_2_1 sample_rounds_2_2 sample_rounds_2_3 sample_rounds_2_4])
       simp_all
  show ?thesis
    unfolding sha1_block_def sample_schedule_2 r by simp
qed

lemma sample_words:
  "be32_words (sha1_pad (bytes_of (''dGhlIHNhbXBsZSBub25jZQ=='' @ ''258EAFA5-E914-47DA-95CA-C5AB0DC85B11''))) =
     [0x6447686C, 0x49484E68, 0x62584273, 0x5A534275, 0x6232356A, 0x5A513D3D, 0x32353845,
      0x41464135, 0x2D453931, 0x342D3437, 0x44412D39, 0x3543412D, 0x43354142, 0x30444338,
      0x35423131, 0x80000000] @
     [0x00000000, 0x00000000, 0x00000000, 0x00000000, 0x00000000, 0x00000000, 0x00000000,
      0x00000000, 0x00000000, 0x00000000, 0x00000000, 0x00000000, 0x00000000, 0x00000000,
      0x00000000, 0x000001E0]"
  by (simp add: sha1_pad_def bytes_of_def be64_def zeros.simps)

lemma sample_digest:
  "SHA1 (bytes_of (''dGhlIHNhbXBsZSBub25jZQ=='' @ ''258EAFA5-E914-47DA-95CA-C5AB0DC85B11'')) =
     [0xB3, 0x7A, 0x4F, 0x2C, 0xC0, 0x62, 0x4F, 0x16, 0x90, 0xF6,
       0x46, 0x06, 0xCF, 0x38, 0x59, 0x45, 0xB2, 0xBE, 0xC4, 0xEA]"
proof -
  have "sha1_blocks (0x67452301, 0xEFCDAB89, 0x98BADCFE, 0x10325476, 0xC3D2E1F0)
     ([0x6447686C, 0x49484E68, 0x62584273, 0x5A534275, 0x6232356A, 0x5A513D3D, 0x32353845,
      0x41464135, 0x2D453931, 0x342D3437, 0x44412D39, 0x3543412D, 0x43354142, 0x30444338,
      0x35423131, 0x80000000] @
      [0x00000000, 0x00000000, 0x00000000, 0x00000000, 0x00000000, 0x00000000, 0x00000000,
      0x00000000, 0x00000000, 0x00000000, 0x00000000, 0x00000000, 0x00000000, 0x00000000,
      0x00000000, 0x000001E0] @ []) =
     (0xB37A4F2C, 0xC0624F16, 0x90F64606, 0xCF385945, 0xB2BEC4EA)"
    by (simp only: sha1_blocks_step sha1_blocks_Nil sample_block_1 sample_block_2 length_Cons list.size)
  then have b: "sha1_blocks (0x67452301, 0xEFCDAB89, 0x98BADCFE, 0x10325476, 0xC3D2E1F0)
     ([0x6447686C, 0x49484E68, 0x62584273, 0x5A534275, 0x6232356A, 0x5A513D3D, 0x32353845,
      0x41464135, 0x2D453931, 0x342D3437, 0x44412D39, 0x3543412D, 0x43354142, 0x30444338,
      0x35423131, 0x80000000] @
      [0x00000000, 0x00000000, 0x00000000, 0x00000000, 0x00000000, 0x00000000, 0x00000000,
      0x00000000, 0x00000000, 0x00000000, 0x00000000, 0x00000000, 0x00000000, 0x00000000,
      0x00000000, 0x000001E0]) =
     (0xB37A4F2C, 0xC0624F16, 0x90F64606, 0xCF385945, 0xB2BEC4EA)"
    by (simp only: append_Nil2)
  show ?thesis
    unfolding SHA1_def sample_words b by (simp add: be32_bytes_def)
qed

lemma sample_base64:
  "base64_encode [0xB3, 0x7A, 0x4F, 0x2C, 0xC0, 0x62, 0x4F, 0x16, 0x90, 0xF6,
       0x46, 0x06, 0xCF, 0x38, 0x59, 0x45, 0xB2, 0xBE, 0xC4, 0xEA] = ''s3pPLMBiTxaQ9kYGzzhZRbK+xOo=''"
  by (simp add: base64_char_def base64_alphabet_def)

lemma length_SHA1: "length (SHA1 m) = 20"
proof -
  obtain a b c d e where
    "sha1_blocks (0x67452301, 0xEFCDAB89, 0x98BADCFE, 0x10325476, 0xC3D2E1F0)
       (be32_words (sha1_pad m)) = (a, b, c, d, e)"
    by (metis prod_cases5)
  then show ?thesis by (simp add: SHA1_def be32_bytes_def)
qed

lemma length_base64_encode: "length (base64_encode bs) = 4 * ((length bs + 2) div 3)"
proof (induction bs rule: base64_encode.induct)
  case (1 a b c r)
  have "(length (a # b # c # r) + 2) div 3 = Suc ((length r + 2) div 3)" by simp
  with 1 show ?case by simp
qed simp_all

text \<open>
  C4.  For every nonce the credential is the base64 text of the SHA-1 digest of the bytes of
  the nonce followed by the GUID \<open>258EAFA5-E914-47DA-95CA-C5AB0DC85B11\<close>: a digest of 20
  bytes, hence a credential of 28 characters.  For the nonce \<open>dGhlIHNhbXBsZSBub25jZQ==\<close> it
  is \<open>s3pPLMBiTxaQ9kYGzzhZRbK+xOo=\<close>.
\<close>

theorem accept_credential_reference_and_sample:
  "compute_websocket_accept nonce =
     base64_encode (SHA1 (bytes_of (nonce @ ''258EAFA5-E914-47DA-95CA-C5AB0DC85B11''))) \<and>
   length (SHA1 (bytes_of (nonce @ ''258EAFA5-E914-47DA-95CA-C5AB0DC85B11''))) = 20 \<and>
   length (compute_websocket_accept nonce) = 28 \<and>
   compute_websocket_accept ''dGhlIHNhbXBsZSBub25jZQ=='' = ''s3pPLMBiTxaQ9kYGzzhZRbK+xOo=''"
proof (intro conjI)
  show "compute_websocket_accept nonce =
     base64_encode (SHA1 (bytes_of (nonce @ ''258EAFA5-E914-47DA-95CA-C5AB0DC85B11'')))"
    by (simp only: compute_websocket_accept_def)
  show "length (SHA1 (bytes_of (nonce @ ''258EAFA5-E914-47DA-95CA-C5AB0DC85B11''))) = 20"
    by (rule length_SHA1)
  show "length (compute_websocket_accept nonce) = 28"
    by (simp only: compute_websocket_accept_def length_base64_encode length_SHA1) simp
  show "compute_websocket_accept ''dGhlIHNhbXBsZSBub25jZQ=='' = ''s3pPLMBiTxaQ9kYGzzhZRbK+xOo=''"
    by (simp only: compute_websocket_accept_def sample_digest sample_base64)
qed

end
